theory Spec2Isabelle
  imports Complex_Main "HOL-Library.Word" "HOL-Library.AList"
begin

chapter \<open>The acquisition service of the code-push server\<close>

text \<open>
  A shallow embedding of the update-check path: the version normalizer and the cache-key
  builder (utils/update-check-request.ts), the rollout selector (utils/rollout-selector.ts),
  the selection engine (utils/acquisition.ts), the response cache of the Redis manager
  (redis-manager.ts) and the validation of deploy status reports (routes/acquisition.ts).

  JavaScript values are modelled as follows. A string is a \<^typ>\<open>string\<close>; the characters
  of the model are the code units 0 to 255. A number is an \<^typ>\<open>int\<close> where the code
  only holds integers that a double holds exactly. The numbers of the rollout selector are
  doubles: a finite one is the \<^typ>\<open>rat\<close> that it denotes, and every operation rounds its
  exact result to the nearest double. An optional
  field is an \<^typ>\<open>'a option\<close>, \<open>None\<close> standing for both \<open>undefined\<close> and \<open>null\<close>. A promise
  is a sum: \<open>Inl\<close> is a rejection (or a thrown error), \<open>Inr\<close> the resolved value. What the
  code writes to the console is returned as a list of log entries. Library functions that
  are not part of the repository (\<open>semver.satisfies\<close>, \<open>URL.parse\<close>,
  \<open>querystring.stringify\<close>, \<open>JSON.parse\<close>, the Redis client) are parameters.
\<close>

section \<open>JavaScript values\<close>

datatype js_error = JsError string

datatype log_entry =
    ConsoleLog string
  | ConsoleWarn string js_error
  | ConsoleError string js_error

text \<open>Truthiness of an optional string, an optional boolean and an optional number.\<close>

definition truthyStr :: "string option \<Rightarrow> bool" where
  "truthyStr v = (case v of None \<Rightarrow> False | Some s \<Rightarrow> s \<noteq> [])"

definition truthyBool :: "bool option \<Rightarrow> bool" where
  "truthyBool v = (case v of None \<Rightarrow> False | Some b \<Rightarrow> b)"

definition truthyNum :: "rat option \<Rightarrow> bool" where
  "truthyNum v = (case v of None \<Rightarrow> False | Some n \<Rightarrow> n \<noteq> 0)"

text \<open>\<open>a || b\<close> on optional strings.\<close>

definition orStr :: "string option \<Rightarrow> string option \<Rightarrow> string option" where
  "orStr a b = (if truthyStr a then a else b)"

section \<open>JavaScript numbers\<close>

text \<open>
  The numbers of the rollout selector are IEEE 754 doubles. A finite double is held as the
  rational number that it denotes, beside the two infinities and \<open>NaN\<close>. The two zeros are
  one value here: the comparisons of the code do not tell them apart.
\<close>

datatype jsnum = Finite rat | PosInfinity | NegInfinity | NaN

text \<open>
  \<open>log2floor n\<close> is the position of the leading bit of \<open>n \<ge> 1\<close>, and \<open>exponentOf x\<close> the
  exponent \<open>e\<close> with \<open>2 ^ e \<le> x < 2 ^ (e + 1)\<close> of a positive \<open>x\<close>.
\<close>

function log2floor :: "int \<Rightarrow> nat" where
  "log2floor n = (if n < 2 then 0 else Suc (log2floor (n div 2)))"
  by pat_completeness auto

termination
  by (relation "measure nat") auto

declare log2floor.simps [simp del]

definition exponentOf :: "rat \<Rightarrow> int" where
  "exponentOf x =
     (if 1 \<le> x then int (log2floor \<lfloor>x\<rfloor>)
      else - int (Suc (log2floor (\<lceil>1 / x\<rceil> - 1))))"

text \<open>Rounding to the nearest integer, a tie to the even one.\<close>

definition roundHalfEven :: "rat \<Rightarrow> int" where
  "roundHalfEven m =
     (let f = \<lfloor>m\<rfloor>; d = m - of_int f
      in if d < 1 / 2 then f
         else if 1 / 2 < d then f + 1
         else if even f then f else f + 1)"

text \<open>
  A double has a significand of 53 bits and an exponent of at least \<open>-1022\<close>, so the doubles
  around \<open>x\<close> are the multiples of \<open>ulpOf x\<close>; below \<open>2 ^ -1022\<close> (the subnormal numbers)
  the spacing stays \<open>2 ^ -1074\<close>. \<open>roundFinite x\<close> is the nearest of these multiples, a tie
  going to the even significand. \<open>roundDouble\<close> is the rounding of every arithmetic
  operation: the result is an infinity when the rounded value needs an exponent above 1023.
\<close>

definition expoOf :: "rat \<Rightarrow> int" where
  "expoOf x = max (exponentOf \<bar>x\<bar>) (- 1022)"

definition ulpOf :: "rat \<Rightarrow> rat" where
  "ulpOf x = 2 powi (expoOf x - 52)"

definition roundFinite :: "rat \<Rightarrow> rat" where
  "roundFinite x =
     (if x = 0 then 0
      else sgn x * of_int (roundHalfEven (\<bar>x\<bar> / ulpOf x)) * ulpOf x)"

definition roundDouble :: "rat \<Rightarrow> jsnum" where
  "roundDouble x =
     (let r = roundFinite x
      in if r \<noteq> 0 \<and> 1023 < exponentOf \<bar>r\<bar>
         then (if 0 < r then PosInfinity else NegInfinity)
         else Finite r)"

text \<open>
  The operators \<open>-x\<close>, \<open>+\<close>, \<open>-\<close>, \<open>*\<close> and \<open>/\<close>. \<open>NaN\<close> is contagious; the difference of two
  equal infinities, the product of an infinity and zero, and the quotients of two infinities
  and of two zeros are \<open>NaN\<close>. A zero divisor counts as \<open>+0\<close>.
\<close>

fun numNeg :: "jsnum \<Rightarrow> jsnum" where
  "numNeg (Finite x) = Finite (- x)"
| "numNeg PosInfinity = NegInfinity"
| "numNeg NegInfinity = PosInfinity"
| "numNeg NaN = NaN"

fun numAdd :: "jsnum \<Rightarrow> jsnum \<Rightarrow> jsnum" where
  "numAdd NaN b = NaN"
| "numAdd a NaN = NaN"
| "numAdd (Finite x) (Finite y) = roundDouble (x + y)"
| "numAdd (Finite x) b = b"
| "numAdd a (Finite y) = a"
| "numAdd PosInfinity PosInfinity = PosInfinity"
| "numAdd NegInfinity NegInfinity = NegInfinity"
| "numAdd PosInfinity NegInfinity = NaN"
| "numAdd NegInfinity PosInfinity = NaN"

definition numSub :: "jsnum \<Rightarrow> jsnum \<Rightarrow> jsnum" where
  "numSub a b = numAdd a (numNeg b)"

fun numSign :: "jsnum \<Rightarrow> rat" where
  "numSign (Finite x) = sgn x"
| "numSign PosInfinity = 1"
| "numSign NegInfinity = - 1"
| "numSign NaN = 0"

definition infinityOfSign :: "rat \<Rightarrow> jsnum" where
  "infinityOfSign s = (if s = 0 then NaN else if 0 < s then PosInfinity else NegInfinity)"

fun numMul :: "jsnum \<Rightarrow> jsnum \<Rightarrow> jsnum" where
  "numMul NaN b = NaN"
| "numMul a NaN = NaN"
| "numMul (Finite x) (Finite y) = roundDouble (x * y)"
| "numMul a b = infinityOfSign (numSign a * numSign b)"

fun numDiv :: "jsnum \<Rightarrow> jsnum \<Rightarrow> jsnum" where
  "numDiv NaN b = NaN"
| "numDiv a NaN = NaN"
| "numDiv (Finite x) (Finite y) = (if y = 0 then infinityOfSign x else roundDouble (x / y))"
| "numDiv (Finite x) b = Finite 0"
| "numDiv a (Finite y) = infinityOfSign (numSign a * (if y < 0 then - 1 else 1))"
| "numDiv a b = NaN"

text \<open>
  The comparisons \<open><\<close>, \<open>===\<close> and \<open><=\<close> (\<open>a > b\<close> is \<open>b < a\<close>): false as soon as an operand is
  \<open>NaN\<close>.
\<close>

fun numLess :: "jsnum \<Rightarrow> jsnum \<Rightarrow> bool" where
  "numLess NaN b = False"
| "numLess a NaN = False"
| "numLess (Finite x) (Finite y) = (x < y)"
| "numLess a PosInfinity = (a \<noteq> PosInfinity)"
| "numLess NegInfinity b = (b \<noteq> NegInfinity)"
| "numLess a b = False"

definition numEq :: "jsnum \<Rightarrow> jsnum \<Rightarrow> bool" where
  "numEq a b = (a \<noteq> NaN \<and> a = b)"

definition numLessEq :: "jsnum \<Rightarrow> jsnum \<Rightarrow> bool" where
  "numLessEq a b = (numLess a b \<or> numEq a b)"

text \<open>
  \<open>Math.max\<close> and \<open>Math.min\<close> of two numbers, and \<open>Math.round\<close>, which rounds to the nearest
  integer, a half upwards.
\<close>

definition mathMax :: "jsnum \<Rightarrow> jsnum \<Rightarrow> jsnum" where
  "mathMax a b = (if a = NaN \<or> b = NaN then NaN else if numLess a b then b else a)"

definition mathMin :: "jsnum \<Rightarrow> jsnum \<Rightarrow> jsnum" where
  "mathMin a b = (if a = NaN \<or> b = NaN then NaN else if numLess b a then b else a)"

fun mathRound :: "jsnum \<Rightarrow> jsnum" where
  "mathRound (Finite x) = Finite (of_int \<lfloor>x + 1 / 2\<rfloor>)"
| "mathRound a = a"

section \<open>Version normalizer (utils/update-check-request.ts)\<close>

definition isDigit :: "char \<Rightarrow> bool" where
  "isDigit c = (c \<in> set ''0123456789'')"

definition isTagChar :: "char \<Rightarrow> bool" where
  "isTagChar c = (c = CHR ''+'' \<or> c = CHR ''-'')"

text \<open>
  The line terminators that \<open>.\<close> of a regular expression does not match. The other two,
  U+2028 and U+2029, are not characters of the model.
\<close>

definition isLineTerminator :: "char \<Rightarrow> bool" where
  "isLineTerminator c = (c = CHR 0x0A \<or> c = CHR 0x0D)"

text \<open>\<open>/^\d+$/.test(version)\<close>\<close>

definition matchesDigits :: "string \<Rightarrow> bool" where
  "matchesDigits version = (version \<noteq> [] \<and> list_all isDigit version)"

text \<open>
  \<open>/^\d+\.\d+([\+\-].*)?$/.test(version)\<close>. A dot and a tag character are no digits, so
  the two runs of digits are the longest ones and the match is deterministic.
\<close>

definition matchesMajorMinor :: "string \<Rightarrow> bool" where
  "matchesMajorMinor version =
     (let major = takeWhile isDigit version; rest = dropWhile isDigit version
      in major \<noteq> [] \<and>
         (case rest of
            [] \<Rightarrow> False
          | dot # rest' \<Rightarrow>
              dot = CHR ''.'' \<and>
              (let minor = takeWhile isDigit rest'; tag = dropWhile isDigit rest'
               in minor \<noteq> [] \<and>
                  (case tag of
                     [] \<Rightarrow> True
                   | t # ts \<Rightarrow> isTagChar t \<and> \<not> list_ex isLineTerminator ts))))"

text \<open>\<open>version.search(/[\+\-]/)\<close>: the index of the first tag character, \<open>None\<close> for -1.\<close>

definition searchTag :: "string \<Rightarrow> nat option" where
  "searchTag version =
     (if list_ex isTagChar version
      then Some (length (takeWhile (\<lambda>c. \<not> isTagChar c) version))
      else None)"

definition normalizeAppVersion :: "string \<Rightarrow> string" where
  "normalizeAppVersion version =
     (if version = [] then version
      else if matchesDigits version then version @ ''.0.0''
      else if matchesMajorMinor version then
        (case searchTag version of
           None \<Rightarrow> version @ ''.0''
         | Some tagIndex \<Rightarrow> take tagIndex version @ ''.0'' @ drop tagIndex version)
      else version)"

section \<open>Cache-key builder (utils/update-check-request.ts)\<close>

text \<open>
  The value of a query field as \<open>URL.parse(url, true)\<close> gives it: a string, or an array of
  strings when the field occurs more than once. The query object is the list of its
  entries in enumeration order, with distinct keys.
\<close>

datatype qvalue = QString string | QArray "string list"

type_synonym query = "(string \<times> qvalue) list"

record UrlObject =
  pathname :: "string option"
  query :: query

definition truthyQ :: "qvalue option \<Rightarrow> bool" where
  "truthyQ v = (case v of None \<Rightarrow> False | Some (QString s) \<Rightarrow> s \<noteq> [] | Some (QArray xs) \<Rightarrow> True)"

fun joinComma :: "string list \<Rightarrow> string" where
  "joinComma [] = []"
| "joinComma [x] = x"
| "joinComma (x # y # ys) = x @ '','' @ joinComma (y # ys)"

text \<open>\<open>String(v)\<close>\<close>

fun toStringQ :: "qvalue \<Rightarrow> string" where
  "toStringQ (QString s) = s"
| "toStringQ (QArray xs) = joinComma xs"

definition toStringPath :: "string option \<Rightarrow> string" where
  "toStringPath p = (case p of None \<Rightarrow> ''null'' | Some s \<Rightarrow> s)"

definition deleteClientFields :: "query \<Rightarrow> query" where
  "deleteClientFields q =
     AList.delete ''label''
       (AList.delete ''package_hash''
         (AList.delete ''packageHash''
           (AList.delete ''beta''
             (AList.delete ''client_unique_id''
               (AList.delete ''clientUniqueId'' q)))))"

definition normalizeQueryAppVersion :: "query \<Rightarrow> query" where
  "normalizeQueryAppVersion q =
     (let rawAppVersion =
            (if truthyQ (map_of q ''appVersion'') then map_of q ''appVersion''
             else map_of q ''app_version'')
      in if truthyQ rawAppVersion then
           (let normalizedAppVersion = normalizeAppVersion (toStringQ (the rawAppVersion));
                q1 = (if truthyQ (map_of q ''appVersion'')
                      then AList.update ''appVersion'' (QString normalizedAppVersion) q else q);
                q2 = (if truthyQ (map_of q1 ''app_version'')
                      then AList.update ''app_version'' (QString normalizedAppVersion) q1 else q1)
            in q2)
         else q)"

definition buildUpdateCheckCacheKey ::
  "(string \<Rightarrow> UrlObject) \<Rightarrow> (query \<Rightarrow> string) \<Rightarrow> string \<Rightarrow> string option \<Rightarrow> string" where
  "buildUpdateCheckCacheKey urlParse stringify originalUrl cacheSchema =
     (let obj = urlParse originalUrl;
          q1 = deleteClientFields (query obj);
          q2 = normalizeQueryAppVersion q1;
          q3 = (if truthyStr cacheSchema
                then AList.update ''__cacheSchema'' (QString (the cacheSchema)) q2 else q2)
      in toStringPath (pathname obj) @ ''?'' @ stringify q3)"

section \<open>Rollout selector (utils/rollout-selector.ts)\<close>

definition DELIMITER :: string where
  "DELIMITER = ''-''"

definition MS_PER_MINUTE :: rat where
  "MS_PER_MINUTE = 60 * 1000"

record RolloutComputationInput =
  rollout :: "rat option"
  holdDurationMinutes :: "rat option"
  rampDurationMinutes :: "rat option"
  uploadTime :: "rat option"

text \<open>
  \<open>hash << n\<close>: the operand is converted to a 32-bit integer, shifted, and the result read
  as a signed 32-bit integer.
\<close>

definition shiftLeft32 :: "int \<Rightarrow> nat \<Rightarrow> int" where
  "shiftLeft32 x n = sint (push_bit n (word_of_int x :: 32 word))"

text \<open>
  The loop of \<open>getHashCode\<close>. The subtraction and the addition are those of JavaScript
  numbers: nothing converts their result back to 32 bits. The numbers stay integers, and
  small enough for a double to hold them exactly (\<open>getHashCode_magnitude\<close> below).
\<close>

fun getHashCode_loop :: "string \<Rightarrow> int \<Rightarrow> int" where
  "getHashCode_loop [] hash = hash"
| "getHashCode_loop (chr # rest) hash =
     getHashCode_loop rest (shiftLeft32 hash 5 - hash + int (of_char chr))"

definition getHashCode :: "string \<Rightarrow> int" where
  "getHashCode input = (if length input = 0 then 0 else getHashCode_loop input 0)"

definition isSelectedForRollout :: "string \<Rightarrow> rat \<Rightarrow> string \<Rightarrow> bool" where
  "isSelectedForRollout clientId rollout' releaseTag =
     (let identifier = clientId @ DELIMITER @ releaseTag;
          hashValue = getHashCode identifier
      in of_int (\<bar>hashValue\<bar> mod 100) < rollout')"

definition isUnfinishedRollout :: "rat option \<Rightarrow> bool" where
  "isUnfinishedRollout rollout' = (rollout' \<noteq> None \<and> rollout' \<noteq> Some 100)"

text \<open>
  Every operation of \<open>getEffectiveRollout\<close> is the operation on doubles. The fields of the
  input and \<open>now\<close> are finite numbers.
\<close>

definition getEffectiveRollout :: "RolloutComputationInput option \<Rightarrow> rat \<Rightarrow> jsnum option" where
  "getEffectiveRollout rolloutInput now =
     (case rolloutInput of
        None \<Rightarrow> None
      | Some input \<Rightarrow>
          (let rollout' = rollout input in
           if \<not> isUnfinishedRollout rollout' then
             Some (Finite (case rollout' of None \<Rightarrow> 100 | Some r \<Rightarrow> r))
           else
             (let uploadTime' = uploadTime input;
                  holdDurationMinutes' =
                    (if truthyNum (holdDurationMinutes input)
                     then the (holdDurationMinutes input) else 0);
                  rampDurationMinutes' =
                    (if truthyNum (rampDurationMinutes input)
                     then the (rampDurationMinutes input) else 0);
                  baseRollout = (case rollout' of Some r \<Rightarrow> r | None \<Rightarrow> 0)
              in if \<not> truthyNum uploadTime' then Some (Finite baseRollout)
                 else
                   (let elapsedMs = numSub (Finite now) (Finite (the uploadTime'));
                        holdMs = numMul (Finite holdDurationMinutes') (Finite MS_PER_MINUTE)
                    in if (numLess (Finite 0) holdMs \<and> numLess elapsedMs holdMs)
                          \<or> (numEq holdMs (Finite 0) \<and> numLess elapsedMs (Finite 0))
                       then Some (Finite baseRollout)
                       else if rampDurationMinutes' \<le> 0 then Some (Finite baseRollout)
                       else
                         (let rampMs =
                                numMul (Finite rampDurationMinutes') (Finite MS_PER_MINUTE);
                              rampElapsed = mathMax (Finite 0) (numSub elapsedMs holdMs)
                          in if numLessEq rampElapsed (Finite 0) then Some (Finite baseRollout)
                             else
                               (let progress = mathMin (Finite 1) (numDiv rampElapsed rampMs);
                                    computed =
                                      numAdd (Finite baseRollout)
                                        (numMul (numSub (Finite 100) (Finite baseRollout))
                                           progress)
                                in Some (mathMin (Finite 100)
                                     (mathMax (Finite baseRollout)
                                        (numDiv (mathRound (numMul computed (Finite 1000)))
                                           (Finite 1000))))))))))"



section \<open>Types (types/rest-definitions.ts)\<close>

record BlobInfo =
  size' :: int
  url :: string

type_synonym PackageHashToBlobInfoMap = "string \<rightharpoonup> BlobInfo"

record PackageInfo =
  appVersion :: "string option"
  description :: "string option"
  isDisabled :: "bool option"
  isMandatory :: "bool option"
  label :: "string option"
  packageHash :: "string option"
  rollout :: "rat option"
  holdDurationMinutes :: "rat option"
  rampDurationMinutes :: "rat option"

record UpdateCheckResponse = PackageInfo +
  target_binary_range :: "string option"
  downloadURL :: "string option"
  isAvailable :: bool
  packageSize :: "int option"
  updateAppVersion :: "bool option"

record CachedRelease =
  appVersion :: string
  blobUrl :: string
  description :: "string option"
  isDisabled :: "bool option"
  isMandatory :: "bool option"
  label :: "string option"
  packageHash :: string
  size' :: int
  rollout :: "rat option"
  rolloutHoldDurationMinutes :: "rat option"
  rolloutRampDurationMinutes :: "rat option"
  rolloutUploadTime :: "rat option"

text \<open>An entry of the cached list may be \<open>null\<close>: the selection engine skips it.\<close>

record UpdateCheckCacheResponse =
  releases :: "CachedRelease option list"

record UpdateCheckRequest =
  appVersion :: string
  clientUniqueId :: "string option"
  deploymentKey :: string
  isCompanion :: "bool option"
  beta :: "bool option"
  label :: "string option"
  packageHash :: "string option"

text \<open>
  The release of the storage layer. The declaration (storage/storage.ts) is not among the
  sources; the record has the fields that \<open>convertToCachedRelease\<close> and
  \<open>primeDiffCacheForReleases\<close> read, with the types of the \<open>CachedRelease\<close> fields they are
  copied to, and the upload time that every stored release carries.
\<close>

record Package =
  appVersion :: string
  blobUrl :: string
  description :: "string option"
  diffPackageMap :: "PackageHashToBlobInfoMap option"
  isDisabled :: "bool option"
  isMandatory :: "bool option"
  label :: "string option"
  packageHash :: string
  rollout :: "rat option"
  holdDurationMinutes :: "rat option"
  rampDurationMinutes :: "rat option"
  size' :: int
  uploadTime :: rat

record CacheableResponse =
  statusCode :: nat
  body :: UpdateCheckCacheResponse

section \<open>What the engine takes from its host\<close>

text \<open>
  \<open>updateCheckProxyUrl\<close> is \<open>env.getUpdateCheckProxyUrl()\<close>; \<open>rewriteUrl proxyUrl azureUrl\<close>
  is the body of the \<open>try\<close> block of \<open>proxyBlobUrl\<close> after the check of the proxy URL (the
  two \<open>URL\<close> objects and \<open>toString\<close>), \<open>Inl\<close> with the error when it throws; \<open>satisfies\<close> is
  \<open>semver.satisfies\<close>; \<open>dateNow\<close> is the reading of \<open>Date.now()\<close> during the request.
\<close>

record Host =
  updateCheckProxyUrl :: "string option"
  rewriteUrl :: "string \<Rightarrow> string \<Rightarrow> js_error + string"
  satisfies :: "string \<Rightarrow> string \<Rightarrow> bool"
  dateNow :: rat

section \<open>Building the cacheable response (utils/acquisition.ts)\<close>

text \<open>
  \<open>proxyBlobUrl\<close> returns a URL and, in its \<open>catch\<close> clause, writes a warning to the
  console: \<open>proxyBlobUrl\<close> is the URL returned and \<open>proxyBlobUrl_console\<close> what the same call
  writes.
\<close>

definition proxyBlobUrl :: "Host \<Rightarrow> string \<Rightarrow> string" where
  "proxyBlobUrl env azureUrl =
     (let proxyUrl = updateCheckProxyUrl env
      in if \<not> truthyStr proxyUrl then azureUrl
         else (case rewriteUrl env (the proxyUrl) azureUrl of
                 Inr newUrl \<Rightarrow> newUrl
               | Inl error \<Rightarrow> azureUrl))"

definition proxyBlobUrl_console :: "Host \<Rightarrow> string \<Rightarrow> log_entry list" where
  "proxyBlobUrl_console env azureUrl =
     (let proxyUrl = updateCheckProxyUrl env
      in if \<not> truthyStr proxyUrl then []
         else (case rewriteUrl env (the proxyUrl) azureUrl of
                 Inr newUrl \<Rightarrow> []
               | Inl error \<Rightarrow> [ConsoleWarn ''Failed to proxy blob URL:'' error]))"

text \<open>
  The call \<open>proxyBlobUrl(undefined)\<close>, which \<open>applyDiffPayload\<close> makes for a diff without a
  \<open>url\<close>: without a proxy the result is \<open>undefined\<close>; with one, \<open>new URL.URL(undefined)\<close>
  parses the string \<open>undefined\<close>, and the \<open>catch\<close> clause warns and returns \<open>undefined\<close>.
\<close>

definition proxyBlobUrl_undefined :: "Host \<Rightarrow> string option" where
  "proxyBlobUrl_undefined env =
     (let proxyUrl = updateCheckProxyUrl env
      in if \<not> truthyStr proxyUrl then None
         else (case rewriteUrl env (the proxyUrl) ''undefined'' of
                 Inr newUrl \<Rightarrow> Some newUrl
               | Inl error \<Rightarrow> None))"

definition proxyBlobUrl_undefined_console :: "Host \<Rightarrow> log_entry list" where
  "proxyBlobUrl_undefined_console env = proxyBlobUrl_console env ''undefined''"

definition convertToCachedRelease :: "Package \<Rightarrow> CachedRelease" where
  "convertToCachedRelease pkg =
     \<lparr> CachedRelease.appVersion = Package.appVersion pkg,
       CachedRelease.blobUrl = Package.blobUrl pkg,
       CachedRelease.description = Package.description pkg,
       CachedRelease.isDisabled = Package.isDisabled pkg,
       CachedRelease.isMandatory = Package.isMandatory pkg,
       CachedRelease.label = Package.label pkg,
       CachedRelease.packageHash = Package.packageHash pkg,
       CachedRelease.size' = Package.size' pkg,
       CachedRelease.rollout = Package.rollout pkg,
       rolloutHoldDurationMinutes = Package.holdDurationMinutes pkg,
       rolloutRampDurationMinutes = Package.rampDurationMinutes pkg,
       rolloutUploadTime = Some (Package.uploadTime pkg) \<rparr>"

text \<open>
  The loop \<open>for (let i = packageHistory.length - 1; i >= 0; i--)\<close>: the second argument is
  \<open>i + 1\<close>, the list built so far is the last argument, and \<open>push\<close> appends to it.
\<close>

fun getUpdatePackageInfo_loop ::
  "Host \<Rightarrow> Package list \<Rightarrow> UpdateCheckRequest \<Rightarrow> string \<Rightarrow> nat \<Rightarrow> CachedRelease option list
   \<Rightarrow> CachedRelease option list" where
  "getUpdatePackageInfo_loop env packageHistory request normalizedVersion 0 rels = rels"
| "getUpdatePackageInfo_loop env packageHistory request normalizedVersion (Suc i) rels =
     (let pkg = packageHistory ! i
      in getUpdatePackageInfo_loop env packageHistory request normalizedVersion i
           (if truthyBool (isCompanion request)
               \<or> satisfies env normalizedVersion (Package.appVersion pkg)
            then rels @ [Some (convertToCachedRelease pkg)]
            else rels))"

text \<open>A history that is \<open>null\<close> gives the same result as the empty one.\<close>

definition getUpdatePackageInfo ::
  "Host \<Rightarrow> Package list \<Rightarrow> UpdateCheckRequest \<Rightarrow> UpdateCheckCacheResponse" where
  "getUpdatePackageInfo env packageHistory request =
     \<lparr> releases =
         (if length packageHistory \<noteq> 0 then
            (let normalizedVersion = normalizeAppVersion (UpdateCheckRequest.appVersion request)
             in getUpdatePackageInfo_loop env packageHistory request normalizedVersion
                  (length packageHistory) [])
          else []) \<rparr>"

section \<open>The selection engine (utils/acquisition.ts)\<close>

definition createUpdateInfoFromRelease :: "Host \<Rightarrow> CachedRelease \<Rightarrow> UpdateCheckResponse" where
  "createUpdateInfoFromRelease env release =
     \<lparr> PackageInfo.appVersion = Some (CachedRelease.appVersion release),
       PackageInfo.description = CachedRelease.description release,
       PackageInfo.isDisabled = None,
       PackageInfo.isMandatory = Some (truthyBool (CachedRelease.isMandatory release)),
       PackageInfo.label = CachedRelease.label release,
       PackageInfo.packageHash = Some (CachedRelease.packageHash release),
       PackageInfo.rollout = None,
       PackageInfo.holdDurationMinutes = None,
       PackageInfo.rampDurationMinutes = None,
       target_binary_range = Some (CachedRelease.appVersion release),
       downloadURL = Some (proxyBlobUrl env (CachedRelease.blobUrl release)),
       isAvailable = (\<not> truthyBool (CachedRelease.isDisabled release)),
       packageSize = Some (CachedRelease.size' release),
       updateAppVersion = Some False \<rparr>"

text \<open>What \<open>createUpdateInfoFromRelease\<close> writes to the console, in \<open>proxyBlobUrl\<close>.\<close>

definition createUpdateInfoFromRelease_console :: "Host \<Rightarrow> CachedRelease \<Rightarrow> log_entry list" where
  "createUpdateInfoFromRelease_console env release =
     proxyBlobUrl_console env (CachedRelease.blobUrl release)"

text \<open>
  A diff map is an object: the map holds its own properties, and \<open>diffMap[requestPackageHash]\<close>
  also finds the properties that every object inherits from \<open>Object.prototype\<close>. An inherited
  property is a function or an object, which is truthy and has neither \<open>url\<close> nor \<open>size\<close>.
\<close>

definition objectPrototypeKeys :: "string list" where
  "objectPrototypeKeys =
     [''constructor'', ''__defineGetter__'', ''__defineSetter__'', ''hasOwnProperty'',
      ''__lookupGetter__'', ''__lookupSetter__'', ''isPrototypeOf'', ''propertyIsEnumerable'',
      ''toString'', ''valueOf'', ''__proto__'', ''toLocaleString'']"

definition applyDiffPayload ::
  "Host \<Rightarrow> UpdateCheckResponse \<Rightarrow> PackageHashToBlobInfoMap option \<Rightarrow> string
   \<Rightarrow> UpdateCheckResponse" where
  "applyDiffPayload env updateInfo diffMap requestPackageHash =
     (if requestPackageHash = [] \<or> diffMap = None then updateInfo
      else (case (the diffMap) requestPackageHash of
              Some diff \<Rightarrow>
                updateInfo\<lparr> downloadURL := Some (proxyBlobUrl env (url diff)),
                            packageSize := Some (BlobInfo.size' diff) \<rparr>
            | None \<Rightarrow>
                if requestPackageHash \<in> set objectPrototypeKeys
                then updateInfo\<lparr> downloadURL := proxyBlobUrl_undefined env,
                                 packageSize := None \<rparr>
                else updateInfo))"

definition applyDiffPayload_console ::
  "Host \<Rightarrow> PackageHashToBlobInfoMap option \<Rightarrow> string \<Rightarrow> log_entry list" where
  "applyDiffPayload_console env diffMap requestPackageHash =
     (if requestPackageHash = [] \<or> diffMap = None then []
      else (case (the diffMap) requestPackageHash of
              Some diff \<Rightarrow> proxyBlobUrl_console env (url diff)
            | None \<Rightarrow>
                if requestPackageHash \<in> set objectPrototypeKeys
                then proxyBlobUrl_undefined_console env
                else []))"

definition isClientPackage :: "CachedRelease \<Rightarrow> string \<Rightarrow> string \<Rightarrow> bool" where
  "isClientPackage release requestLabel requestPackageHash =
     (if requestLabel \<noteq> [] then CachedRelease.label release = Some requestLabel
      else requestPackageHash \<noteq> [] \<and> CachedRelease.packageHash release = requestPackageHash)"

text \<open>
  \<open>getEffectiveRollout\<close> is called with an input object, so it returns a number, and
  \<open>isSelectedForRollout\<close> compares a finite number with it: the comparison is true for
  \<open>Infinity\<close> and false for \<open>-Infinity\<close> and \<open>NaN\<close>.
\<close>

definition isClientSelectedForRollout :: "Host \<Rightarrow> CachedRelease \<Rightarrow> string \<Rightarrow> string \<Rightarrow> bool" where
  "isClientSelectedForRollout env release clientUniqueId' releaseKey =
     (if clientUniqueId' = [] \<or> CachedRelease.rollout release = None then False
      else
        (let effectiveRollout = getEffectiveRollout
               (Some \<lparr> RolloutComputationInput.rollout = CachedRelease.rollout release,
                       RolloutComputationInput.holdDurationMinutes =
                         rolloutHoldDurationMinutes release,
                       RolloutComputationInput.rampDurationMinutes =
                         rolloutRampDurationMinutes release,
                       RolloutComputationInput.uploadTime = rolloutUploadTime release \<rparr>)
               (dateNow env)
         in (case effectiveRollout of
               Some (Finite r) \<Rightarrow> isSelectedForRollout clientUniqueId' r releaseKey
             | Some PosInfinity \<Rightarrow> True
             | _ \<Rightarrow> False)))"

definition buildNoUpdateResponse :: "string \<Rightarrow> string \<Rightarrow> UpdateCheckResponse" where
  "buildNoUpdateResponse rawAppVersion normalizedAppVersion =
     \<lparr> PackageInfo.appVersion =
         Some (if rawAppVersion \<noteq> [] then rawAppVersion else normalizedAppVersion),
       PackageInfo.description = None,
       PackageInfo.isDisabled = None,
       PackageInfo.isMandatory = None,
       PackageInfo.label = None,
       PackageInfo.packageHash = None,
       PackageInfo.rollout = None,
       PackageInfo.holdDurationMinutes = None,
       PackageInfo.rampDurationMinutes = None,
       target_binary_range = None,
       downloadURL = None,
       isAvailable = False,
       packageSize = None,
       updateAppVersion = Some False \<rparr>"

type_synonym DiffMapFetcher = "string \<Rightarrow> js_error + PackageHashToBlobInfoMap option"

text \<open>The request fields that stay fixed during the walk over the releases.\<close>

record SelectionRequest =
  clientUniqueId :: string
  betaRequested :: bool
  requestLabel :: string
  requestPackageHash :: string
  normalizedAppVersion :: string
  requestIsCompanion :: bool

text \<open>
  \<open>release.label || release.packageHash\<close>
\<close>

definition releaseKeyOf :: "CachedRelease \<Rightarrow> string" where
  "releaseKeyOf release =
     (if truthyStr (CachedRelease.label release) then the (CachedRelease.label release)
      else CachedRelease.packageHash release)"

definition releaseApplies :: "Host \<Rightarrow> SelectionRequest \<Rightarrow> CachedRelease \<Rightarrow> bool" where
  "releaseApplies env req release =
     (requestIsCompanion req
      \<or> (normalizedAppVersion req \<noteq> [] \<and> length (normalizedAppVersion req) > 0
         \<and> satisfies env (normalizedAppVersion req) (CachedRelease.appVersion release)))"

text \<open>
  The loop of \<open>buildUpdateCheckBody\<close> over the releases, with its four variables as
  arguments. The result is what the function goes on to do when the loop is left, by the
  \<open>return\<close> inside or at its end: \<open>Some (selectedUpdate, selectedRelease, forceMandatory)\<close>
  when it hydrates and finalizes the selected update, \<open>None\<close> when it answers that there is
  no update.
\<close>

fun walkReleases ::
  "Host \<Rightarrow> SelectionRequest \<Rightarrow> CachedRelease option list
   \<Rightarrow> UpdateCheckResponse option \<Rightarrow> CachedRelease option \<Rightarrow> bool \<Rightarrow> bool
   \<Rightarrow> (UpdateCheckResponse \<times> CachedRelease \<times> bool) option" where
  "walkReleases env req [] selectedUpdate selectedRelease forceMandatory pendingMandatory =
     (case (selectedUpdate, selectedRelease) of
        (Some u, Some r) \<Rightarrow> Some (u, r, forceMandatory)
      | _ \<Rightarrow> None)"
| "walkReleases env req (None # rest) selectedUpdate selectedRelease forceMandatory
     pendingMandatory =
     walkReleases env req rest selectedUpdate selectedRelease forceMandatory pendingMandatory"
| "walkReleases env req (Some release # rest) selectedUpdate selectedRelease forceMandatory
     pendingMandatory =
     (let isCurrentRelease =
            isClientPackage release (requestLabel req) (requestPackageHash req)
      in if isCurrentRelease \<and> truthyBool (CachedRelease.isDisabled release) then
           walkReleases env req rest selectedUpdate selectedRelease forceMandatory
             pendingMandatory
         else if isCurrentRelease then
           (case (selectedUpdate, selectedRelease) of
              (Some u, Some r) \<Rightarrow> Some (u, r, forceMandatory)
            | _ \<Rightarrow> None)
         else if truthyBool (CachedRelease.isDisabled release) then
           walkReleases env req rest selectedUpdate selectedRelease forceMandatory
             pendingMandatory
         else if \<not> releaseApplies env req release then
           walkReleases env req rest selectedUpdate selectedRelease forceMandatory
             pendingMandatory
         else if selectedUpdate \<noteq> None then
           walkReleases env req rest selectedUpdate selectedRelease
             (if truthyBool (CachedRelease.isMandatory release) then True else forceMandatory)
             pendingMandatory
         else
           (let isRollout = isUnfinishedRollout (CachedRelease.rollout release);
                updateInfo =
                  (if \<not> isRollout then Some (createUpdateInfoFromRelease env release)
                   else if betaRequested req
                           \<or> isClientSelectedForRollout env release (clientUniqueId req)
                                (releaseKeyOf release)
                   then Some (createUpdateInfoFromRelease env release)
                   else None)
            in if updateInfo \<noteq> None then
                 walkReleases env req rest updateInfo (Some release)
                   (pendingMandatory \<or> truthyBool (CachedRelease.isMandatory release))
                   pendingMandatory
               else
                 walkReleases env req rest selectedUpdate selectedRelease forceMandatory
                   (if truthyBool (CachedRelease.isMandatory release) then True
                    else pendingMandatory)))"

text \<open>
  The \<open>try\<close> block is the case distinction on the outcome of the fetch; the \<open>catch\<close> clause
  is its \<open>Inl\<close> branch, which only warns. \<open>applyDiffPayload\<close> does not throw: its
  \<open>proxyBlobUrl\<close> catches, and writes to the console.
\<close>

definition hydrateDiffPayloadForRelease ::
  "Host \<Rightarrow> UpdateCheckResponse \<Rightarrow> CachedRelease option \<Rightarrow> string \<Rightarrow> DiffMapFetcher
   \<Rightarrow> js_error + (UpdateCheckResponse \<times> log_entry list)" where
  "hydrateDiffPayloadForRelease env updateInfo release requestPackageHash' diffMapFetcher =
     (if requestPackageHash' = [] \<or> release = None then Inr (updateInfo, [])
      else
        (case diffMapFetcher (CachedRelease.packageHash (the release)) of
           Inr diffMap \<Rightarrow>
             Inr (if diffMap \<noteq> None
                  then applyDiffPayload env updateInfo diffMap requestPackageHash'
                  else updateInfo,
                  if diffMap \<noteq> None
                  then applyDiffPayload_console env diffMap requestPackageHash'
                  else [])
         | Inl error \<Rightarrow>
             Inr (updateInfo,
                  [ConsoleWarn ''Failed to hydrate diff package map for updateCheck'' error])))"

definition finalizeUpdateCheckResponse ::
  "UpdateCheckResponse \<Rightarrow> CachedRelease \<Rightarrow> bool \<Rightarrow> string \<Rightarrow> string \<Rightarrow> UpdateCheckResponse" where
  "finalizeUpdateCheckResponse updateInfo release forceMandatory rawAppVersion
     normalizedAppVersion' =
     (let u1 = (if forceMandatory then updateInfo\<lparr> PackageInfo.isMandatory := Some True \<rparr>
                else updateInfo);
          u2 = u1\<lparr> target_binary_range := Some (CachedRelease.appVersion release) \<rparr>
      in u2\<lparr> PackageInfo.appVersion :=
               Some (if rawAppVersion \<noteq> [] then rawAppVersion else normalizedAppVersion') \<rparr>)"

text \<open>
  The result is the promise of \<open>buildUpdateCheckBody\<close>: \<open>Inr\<close> with the \<open>updateInfo\<close> of the
  body and the warnings written on the way, \<open>Inl\<close> if it were rejected. The loop calls
  \<open>createUpdateInfoFromRelease\<close> once, for the release that becomes \<open>selectedRelease\<close> (no
  release is looked at for selection after one is selected, and the loop selects none
  when it answers that there is no update): what this call writes comes first.
\<close>

definition buildUpdateCheckBody ::
  "Host \<Rightarrow> CacheableResponse \<Rightarrow> string \<Rightarrow> bool \<Rightarrow> string \<Rightarrow> string \<Rightarrow> string \<Rightarrow> string \<Rightarrow> bool
   \<Rightarrow> DiffMapFetcher \<Rightarrow> js_error + (UpdateCheckResponse \<times> log_entry list)" where
  "buildUpdateCheckBody env response clientUniqueId' betaRequested' requestLabel'
     requestPackageHash' rawAppVersion normalizedAppVersion' requestIsCompanion'
     diffMapFetcher =
     (let rels = releases (body response);
          req = \<lparr> clientUniqueId = clientUniqueId', betaRequested = betaRequested',
                  requestLabel = requestLabel', requestPackageHash = requestPackageHash',
                  normalizedAppVersion = normalizedAppVersion',
                  requestIsCompanion = requestIsCompanion' \<rparr>
      in (case walkReleases env req rels None None False False of
            Some (selectedUpdate, selectedRelease, forceMandatory) \<Rightarrow>
              (case hydrateDiffPayloadForRelease env selectedUpdate (Some selectedRelease)
                      requestPackageHash' diffMapFetcher of
                 Inl error \<Rightarrow> Inl error
               | Inr (hydrated, warnings) \<Rightarrow>
                   Inr (finalizeUpdateCheckResponse hydrated selectedRelease forceMandatory
                          rawAppVersion normalizedAppVersion',
                        createUpdateInfoFromRelease_console env selectedRelease @ warnings))
          | None \<Rightarrow>
              (let noUpdate = buildNoUpdateResponse rawAppVersion normalizedAppVersion'
               in Inr (noUpdate\<lparr> target_binary_range := PackageInfo.appVersion noUpdate \<rparr>,
                       []))))"

section \<open>The response cache of the Redis manager (redis-manager.ts)\<close>

definition DEPLOYMENT_SUCCEEDED :: string where
  "DEPLOYMENT_SUCCEEDED = ''DeploymentSucceeded''"

definition DEPLOYMENT_FAILED :: string where
  "DEPLOYMENT_FAILED = ''DeploymentFailed''"

definition DOWNLOADED :: string where
  "DOWNLOADED = ''Downloaded''"

definition isValidDeploymentStatus :: "string \<Rightarrow> bool" where
  "isValidDeploymentStatus status =
     (status = DEPLOYMENT_SUCCEEDED \<or> status = DEPLOYMENT_FAILED \<or> status = DOWNLOADED)"

text \<open>
  The promisified commands of the Redis client that the response cache uses. The store
  behind the client is a state of any type \<open>'s\<close>; a command takes the state, and gives
  the outcome of its promise (\<open>Inl\<close> for an I/O error) and the state after it.
\<close>

record 's PromisifiedRedisClient =
  hget :: "string \<Rightarrow> string \<Rightarrow> 's \<Rightarrow> (js_error + string option) \<times> 's"
  exists' :: "string \<Rightarrow> 's \<Rightarrow> (js_error + nat) \<times> 's"
  hset :: "string \<Rightarrow> string \<Rightarrow> string \<Rightarrow> 's \<Rightarrow> (js_error + nat) \<times> 's"
  expire :: "string \<Rightarrow> nat \<Rightarrow> 's \<Rightarrow> (js_error + nat) \<times> 's"

record 's RedisManager =
  promisifiedOpsClient :: "'s PromisifiedRedisClient option"
  promisifiedMetricsClient :: "'s PromisifiedRedisClient option"

definition DEFAULT_EXPIRY :: nat where
  "DEFAULT_EXPIRY = 3600"

definition isEnabled :: "'s RedisManager \<Rightarrow> bool" where
  "isEnabled m = (promisifiedOpsClient m \<noteq> None \<and> promisifiedMetricsClient m \<noteq> None)"

text \<open>
  The outcome of a method of the manager: the outcome of the promise it returns, the
  lines it wrote to the console, and the state of the store.
\<close>

type_synonym ('a, 's) managed = "((js_error + 'a) \<times> log_entry list) \<times> 's"

text \<open>
  \<open>getCachedResponse\<close>. The handler of \<open>catch\<close> writes the error to the console and throws
  it again, so the promise is rejected with the error of \<open>hget\<close> (or of \<open>JSON.parse\<close>, a
  parameter here).
\<close>

definition getCachedResponse ::
  "'s RedisManager \<Rightarrow> (string \<Rightarrow> js_error + CacheableResponse) \<Rightarrow> string \<Rightarrow> string \<Rightarrow> 's
   \<Rightarrow> (CacheableResponse option, 's) managed" where
  "getCachedResponse m jsonParse expiryKey url' s =
     (if \<not> isEnabled m then
        ((Inr None,
          [ConsoleLog (''[Redis] Cache disabled, skipping getCachedResponse for key: ''
                       @ expiryKey)]), s)
      else
        (let attempt = ConsoleLog (''[Redis] Attempting to get cached response - Key: ''
                                   @ expiryKey @ '', URL: '' @ url');
             failed = ''[Redis] Error getting cached response for key '' @ expiryKey @ '':'';
             (outcome, s') = hget (the (promisifiedOpsClient m)) expiryKey url' s
         in (case outcome of
               Inr serializedResponse \<Rightarrow>
                 (if truthyStr serializedResponse then
                    (let found = ConsoleLog (''[Redis] Found cached response for key: ''
                                             @ expiryKey)
                     in (case jsonParse (the serializedResponse) of
                           Inr response \<Rightarrow> ((Inr (Some response), [attempt, found]), s')
                         | Inl err \<Rightarrow>
                             ((Inl err, [attempt, found, ConsoleError failed err]), s')))
                  else
                    ((Inr None,
                      [attempt,
                       ConsoleLog (''[Redis] No cached response found for key: ''
                                   @ expiryKey)]), s'))
             | Inl err \<Rightarrow> ((Inl err, [attempt, ConsoleError failed err]), s'))))"

text \<open>
  \<open>setCachedResponse\<close>: \<open>exists\<close>, then \<open>hset\<close>, then \<open>expire\<close> for a new key. An error of
  any of the three skips the rest of the chain and reaches the handler of \<open>catch\<close>, which
  writes it to the console and throws it again.
\<close>

definition setCachedResponse ::
  "'s RedisManager \<Rightarrow> (CacheableResponse \<Rightarrow> string) \<Rightarrow> string \<Rightarrow> string \<Rightarrow> CacheableResponse
   \<Rightarrow> 's \<Rightarrow> (unit, 's) managed" where
  "setCachedResponse m jsonStringify expiryKey url' response s =
     (if \<not> isEnabled m then
        ((Inr (),
          [ConsoleLog (''[Redis] Cache disabled, skipping setCachedResponse for key: ''
                       @ expiryKey)]), s)
      else
        (let client = the (promisifiedOpsClient m);
             setting = ConsoleLog (''[Redis] Setting cached response - Key: '' @ expiryKey
                                   @ '', URL: '' @ url');
             failed = ''[Redis] Error setting cached response for key '' @ expiryKey @ '':'';
             done = ConsoleLog (''[Redis] Successfully cached response for key: ''
                                @ expiryKey);
             serializedResponse = jsonStringify response;
             (existing, s1) = exists' client expiryKey s
         in (case existing of
               Inl err \<Rightarrow> ((Inl err, [setting, ConsoleError failed err]), s1)
             | Inr isExisting \<Rightarrow>
                 (let isNewKey = (isExisting = 0);
                      keyExists = ConsoleLog (''[Redis] Key '' @ expiryKey @ '' exists: ''
                                    @ (if isNewKey then ''false'' else ''true''));
                      (stored, s2) = hset client expiryKey url' serializedResponse s1
                  in (case stored of
                        Inl err \<Rightarrow>
                          ((Inl err, [setting, keyExists, ConsoleError failed err]), s2)
                      | Inr _ \<Rightarrow>
                          (if isNewKey then
                             (let expiring = ConsoleLog (''[Redis] Setting expiry for new key: ''
                                                         @ expiryKey);
                                  (expired, s3) = expire client expiryKey DEFAULT_EXPIRY s2
                              in (case expired of
                                    Inl err \<Rightarrow>
                                      ((Inl err,
                                        [setting, keyExists, expiring,
                                         ConsoleError failed err]), s3)
                                  | Inr _ \<Rightarrow>
                                      ((Inr (), [setting, keyExists, expiring, done]), s3)))
                           else ((Inr (), [setting, keyExists, done]), s2)))))))"

section \<open>The update-check handler and the cache (routes/acquisition.ts)\<close>

text \<open>
  The read of the handler: \<open>redisManager.getCachedResponse(key, url).catch(...)\<close>. The
  handler of \<open>catch\<close> stores the error in \<open>redisError\<close> and goes on with \<open>null\<close>. The result is
  the cached response, \<open>redisError\<close>, the console and the store.
\<close>

definition updateCheck_cachedResponse ::
  "'s RedisManager \<Rightarrow> (string \<Rightarrow> js_error + CacheableResponse) \<Rightarrow> string \<Rightarrow> string \<Rightarrow> 's
   \<Rightarrow> ((js_error + CacheableResponse option) \<times> js_error option \<times> log_entry list) \<times> 's" where
  "updateCheck_cachedResponse m jsonParse key url' s =
     (let ((outcome, console), s') = getCachedResponse m jsonParse key url' s
      in (case outcome of
            Inl error \<Rightarrow> ((Inr None, Some error, console), s')
          | Inr cachedResponse \<Rightarrow> ((Inr cachedResponse, None, console), s')))"

text \<open>
  The write of the handler, after the response is sent:
  \<open>redisManager.setCachedResponse(key, url, response).catch(...)\<close>, whose handler warns.
\<close>

definition updateCheck_writeBack ::
  "'s RedisManager \<Rightarrow> (CacheableResponse \<Rightarrow> string) \<Rightarrow> string \<Rightarrow> string \<Rightarrow> CacheableResponse
   \<Rightarrow> 's \<Rightarrow> (unit, 's) managed" where
  "updateCheck_writeBack m jsonStringify key url' response s =
     (let ((outcome, console), s') = setCachedResponse m jsonStringify key url' response s
      in (case outcome of
            Inl error \<Rightarrow>
              ((Inr (), console @ [ConsoleWarn ''Failed to set updateCheck cache'' error]), s')
          | Inr u \<Rightarrow> ((Inr (), console), s')))"

text \<open>
  The end of the chain:
  \<open>.then(() => { if (redisError) console.warn(...) }).catch((error) => restErrorHandler(...))\<close>.
  The first argument is the outcome of the promise before these two links. The result is
  the error that is given to \<open>errorUtils.restErrorHandler\<close>, if any, and the console.
\<close>

definition updateCheck_epilogue ::
  "js_error + unit \<Rightarrow> js_error option \<Rightarrow> js_error option \<times> log_entry list" where
  "updateCheck_epilogue settled redisError =
     (case settled of
        Inl error \<Rightarrow> (Some error, [])
      | Inr u \<Rightarrow>
          (None,
           (case redisError of
              Some e \<Rightarrow> [ConsoleWarn ''Redis cache error in updateCheck'' e]
            | None \<Rightarrow> [])))"

text \<open>
  What a run of the chain leaves behind: the response and the flag \<open>fromCache\<close> that
  \<open>sendUpdateCheckResponse\<close> was called with, when its promise was fulfilled; the response
  given to \<open>updateCheckMicrocache.set\<close>; the error given to \<open>errorUtils.restErrorHandler\<close>;
  the console; and the store.
\<close>

record 's UpdateCheckRun =
  runAnswered :: "(CacheableResponse \<times> bool) option"
  runMicrocached :: "CacheableResponse option"
  runRestError :: "js_error option"
  runConsole :: "log_entry list"
  runStore :: 's

text \<open>
  The last two links, applied to the outcome \<open>settled\<close> of the chain before them.
\<close>

definition updateCheck_settle ::
  "(CacheableResponse \<times> bool) option \<Rightarrow> CacheableResponse option \<Rightarrow> js_error + unit
   \<Rightarrow> js_error option \<Rightarrow> log_entry list \<Rightarrow> 's \<Rightarrow> 's UpdateCheckRun" where
  "updateCheck_settle answered memo settled redisError console s =
     (let (handled, warned) = updateCheck_epilogue settled redisError
      in \<lparr> runAnswered = answered, runMicrocached = memo, runRestError = handled,
           runConsole = console @ warned, runStore = s \<rparr>)"

text \<open>
  The chain of the handler after a miss of the microcache, from
  \<open>redisManager.getCachedResponse(key, url)\<close> to \<open>.done()\<close>. \<open>createResponseUsingStorage\<close> and
  \<open>sendUpdateCheckResponse\<close> reach into the storage, the validation helpers and express,
  which are not part of these sources: they are parameters here, as the promise that each
  returns for a state of the store, with its console and the store after it (the request
  and the options of the response are fixed during a run). A rejection skips the links
  that follow, up to the last \<open>catch\<close>.
\<close>

definition updateCheck_chain ::
  "'s RedisManager \<Rightarrow> (string \<Rightarrow> js_error + CacheableResponse) \<Rightarrow> (CacheableResponse \<Rightarrow> string)
   \<Rightarrow> ('s \<Rightarrow> (CacheableResponse option, 's) managed)
   \<Rightarrow> (CacheableResponse \<Rightarrow> bool \<Rightarrow> 's \<Rightarrow> (unit, 's) managed)
   \<Rightarrow> string \<Rightarrow> string \<Rightarrow> 's \<Rightarrow> 's UpdateCheckRun" where
  "updateCheck_chain m jsonParse jsonStringify createResponseUsingStorage
     sendUpdateCheckResponse key url' s =
     (let ((read, redisError, c1), s1) = updateCheck_cachedResponse m jsonParse key url' s
      in (case read of
            Inl error \<Rightarrow> updateCheck_settle None None (Inl error) redisError c1 s1
          | Inr cachedResponse \<Rightarrow>
              (let fromCache = (cachedResponse \<noteq> None);
                   ((found, c2), s2) =
                     (case cachedResponse of
                        Some response \<Rightarrow> ((Inr (Some response), []), s1)
                      | None \<Rightarrow> createResponseUsingStorage s1)
               in (case found of
                     Inl error \<Rightarrow>
                       updateCheck_settle None None (Inl error) redisError (c1 @ c2) s2
                   | Inr None \<Rightarrow>
                       updateCheck_settle None None (Inr ()) redisError (c1 @ c2) s2
                   | Inr (Some response) \<Rightarrow>
                       (let ((sent, c3), s3) = sendUpdateCheckResponse response fromCache s2
                        in (case sent of
                              Inl error \<Rightarrow>
                                updateCheck_settle None None (Inl error) redisError
                                  (c1 @ c2 @ c3) s3
                            | Inr u \<Rightarrow>
                                (let ((stored, c4), s4) =
                                       (if \<not> fromCache
                                        then updateCheck_writeBack m jsonStringify key url'
                                               response s3
                                        else ((Inr (), []), s3))
                                 in updateCheck_settle (Some (response, fromCache))
                                      (Some response) stored redisError
                                      (c1 @ c2 @ c3 @ c4) s4)))))))"

section \<open>The deploy status report (routes/acquisition.ts)\<close>

text \<open>
  The calls of the metrics store that the handler makes. Their implementation is not
  modelled: the outcome of each call is a parameter of the handler.
\<close>

datatype MetricsCall =
    IncrementLabelStatusCount string string "string option"
  | RecordUpdate string string string "string option"
  | RemoveDeploymentKeyClientActiveLabel string string
  | GetCurrentActiveLabel string string
  | UpdateActiveAppForClient string string string "string option"

datatype HttpReply =
    MalformedRequestError string
  | SendStatus nat

text \<open>
  The body of the request is the object \<open>req.body\<close>, with strings as values.
  \<open>newMetricsSdk\<close> is the test of the SDK version of the request,
  \<open>semver.valid(sdkVersion) && semver.gte(sdkVersion, METRICS_BREAKING_VERSION)\<close>.
  The result is the reply, the calls of the metrics store in the order they are made, and
  the warnings.
\<close>

definition reportStatusDeploy ::
  "bool \<Rightarrow> (MetricsCall \<Rightarrow> js_error + string option) \<Rightarrow> (string \<rightharpoonup> string)
   \<Rightarrow> HttpReply \<times> MetricsCall list \<times> log_entry list" where
  "reportStatusDeploy newMetricsSdk metrics reqBody =
     (let deploymentKey' = orStr (reqBody ''deploymentKey'') (reqBody ''deployment_key'');
          appVersion' = orStr (reqBody ''appVersion'') (reqBody ''app_version'');
          previousDeploymentKey =
            orStr (orStr (reqBody ''previousDeploymentKey'')
                         (reqBody ''previous_deployment_key'')) deploymentKey';
          previousLabelOrAppVersion =
            orStr (reqBody ''previousLabelOrAppVersion'')
                  (reqBody ''previous_label_or_app_version'');
          clientUniqueId' = orStr (reqBody ''clientUniqueId'') (reqBody ''client_unique_id'')
      in if \<not> truthyStr deploymentKey' \<or> \<not> truthyStr appVersion' then
           (MalformedRequestError
              ''A deploy status report must contain a valid appVersion and deploymentKey.'',
            [], [])
         else if truthyStr (reqBody ''label'') \<and> \<not> truthyStr (reqBody ''status'') then
           (MalformedRequestError
              ''A deploy status report for a labelled package must contain a valid status.'',
            [], [])
         else if truthyStr (reqBody ''label'')
                 \<and> \<not> isValidDeploymentStatus (the (reqBody ''status'')) then
           (MalformedRequestError (''Invalid status: '' @ the (reqBody ''status'')), [], [])
         else if newMetricsSdk then
           (let redisUpdate =
                  (if truthyStr (reqBody ''label'')
                      \<and> reqBody ''status'' = Some DEPLOYMENT_FAILED
                   then IncrementLabelStatusCount (the deploymentKey') (the (reqBody ''label''))
                          (reqBody ''status'')
                   else RecordUpdate (the deploymentKey')
                          (the (orStr (reqBody ''label'') appVersion'))
                          (the previousDeploymentKey) previousLabelOrAppVersion)
            in (case metrics redisUpdate of
                  Inl error \<Rightarrow>
                    (SendStatus 200, [redisUpdate],
                     [ConsoleWarn ''Failed to record deploy metric'' error])
                | Inr _ \<Rightarrow>
                    (if truthyStr clientUniqueId' then
                       (let removal = RemoveDeploymentKeyClientActiveLabel
                                        (the previousDeploymentKey) (the clientUniqueId')
                        in (case metrics removal of
                              Inl error \<Rightarrow>
                                (SendStatus 200, [redisUpdate, removal],
                                 [ConsoleWarn ''Failed to record deploy metric'' error])
                            | Inr _ \<Rightarrow> (SendStatus 200, [redisUpdate, removal], [])))
                     else (SendStatus 200, [redisUpdate], []))))
         else if \<not> truthyStr clientUniqueId' then
           (MalformedRequestError
              ''A deploy status report must contain a valid appVersion, clientUniqueId and deploymentKey.'',
            [], [])
         else
           (let failed = ''Failed to record legacy deploy metric'';
                reading = GetCurrentActiveLabel (the deploymentKey') (the clientUniqueId')
            in (case metrics reading of
                  Inl error \<Rightarrow> (SendStatus 200, [reading], [ConsoleWarn failed error])
                | Inr currentVersionLabel \<Rightarrow>
                    (if truthyStr (reqBody ''label'')
                        \<and> reqBody ''label'' \<noteq> currentVersionLabel then
                       (let increment = IncrementLabelStatusCount (the deploymentKey')
                                          (the (reqBody ''label'')) (reqBody ''status'')
                        in (case metrics increment of
                              Inl error \<Rightarrow>
                                (SendStatus 200, [reading, increment],
                                 [ConsoleWarn failed error])
                            | Inr _ \<Rightarrow>
                                (if reqBody ''status'' = Some DEPLOYMENT_SUCCEEDED then
                                   (let activate = UpdateActiveAppForClient (the deploymentKey')
                                                     (the clientUniqueId')
                                                     (the (reqBody ''label''))
                                                     currentVersionLabel
                                    in (case metrics activate of
                                          Inl error \<Rightarrow>
                                            (SendStatus 200, [reading, increment, activate],
                                             [ConsoleWarn failed error])
                                        | Inr _ \<Rightarrow>
                                            (SendStatus 200, [reading, increment, activate],
                                             [])))
                                 else (SendStatus 200, [reading, increment], []))))
                     else if \<not> truthyStr (reqBody ''label'')
                             \<and> appVersion' \<noteq> currentVersionLabel then
                       (let activate = UpdateActiveAppForClient (the deploymentKey')
                                         (the clientUniqueId') (the appVersion') appVersion'
                        in (case metrics activate of
                              Inl error \<Rightarrow>
                                (SendStatus 200, [reading, activate],
                                 [ConsoleWarn failed error])
                            | Inr _ \<Rightarrow> (SendStatus 200, [reading, activate], [])))
                     else (SendStatus 200, [reading], [])))))"

section \<open>Notions used in the statements about the rollout\<close>

text \<open>
  The hold and the ramp of a rollout input in milliseconds, as \<open>getEffectiveRollout\<close>
  computes them (a missing duration counts as 0), the time elapsed in the ramp and the
  progress of the ramp.
\<close>

definition holdMsOf :: "RolloutComputationInput \<Rightarrow> jsnum" where
  "holdMsOf input =
     numMul (Finite (if truthyNum (RolloutComputationInput.holdDurationMinutes input)
                     then the (RolloutComputationInput.holdDurationMinutes input) else 0))
       (Finite MS_PER_MINUTE)"

definition rampMinutesOf :: "RolloutComputationInput \<Rightarrow> rat" where
  "rampMinutesOf input =
     (if truthyNum (RolloutComputationInput.rampDurationMinutes input)
      then the (RolloutComputationInput.rampDurationMinutes input) else 0)"

definition rampMsOf :: "RolloutComputationInput \<Rightarrow> jsnum" where
  "rampMsOf input = numMul (Finite (rampMinutesOf input)) (Finite MS_PER_MINUTE)"







definition rampingRelease :: RolloutComputationInput where
  "rampingRelease =
     \<lparr> RolloutComputationInput.rollout = Some 50,
       RolloutComputationInput.holdDurationMinutes = Some 2,
       RolloutComputationInput.rampDurationMinutes = Some 10,
       RolloutComputationInput.uploadTime = Some 1000 \<rparr>"

definition longHold :: RolloutComputationInput where
  "longHold =
     \<lparr> RolloutComputationInput.rollout = Some 50,
       RolloutComputationInput.holdDurationMinutes = Some (2 ^ 47),
       RolloutComputationInput.rampDurationMinutes = Some (1 / 128),
       RolloutComputationInput.uploadTime = Some (2221 / 4) \<rparr>"

definition freshRelease :: RolloutComputationInput where
  "freshRelease =
     \<lparr> RolloutComputationInput.rollout = Some 0,
       RolloutComputationInput.holdDurationMinutes = None,
       RolloutComputationInput.rampDurationMinutes = Some 10,
       RolloutComputationInput.uploadTime = Some 1000 \<rparr>"

section \<open>Notions used in the statements about the cache key\<close>

text \<open>
  The query without the four fields that the specification names. Two URLs differ only in these
  fields when their path names are equal and their queries are equal without them.
\<close>

definition withoutClientFields :: "query \<Rightarrow> query" where
  "withoutClientFields q =
     AList.delete ''label''
       (AList.delete ''packageHash''
         (AList.delete ''beta''
           (AList.delete ''clientUniqueId'' q)))"

text \<open>
  An instance of the two library parameters: a serializer that joins \<open>key=value\<close> with
  \<open>&\<close>, and a parser that knows four request URLs.
\<close>

fun demoStringify :: "query \<Rightarrow> string" where
  "demoStringify [] = []"
| "demoStringify [(k, v)] = k @ ''='' @ toStringQ v"
| "demoStringify ((k, v) # e # es) = k @ ''='' @ toStringQ v @ ''&'' @ demoStringify (e # es)"

definition demoParse :: "string \<Rightarrow> UrlObject" where
  "demoParse originalUrl =
     (if originalUrl = ''/updateCheck?deploymentKey=K&appVersion=2&clientUniqueId=c1&label=v3''
      then \<lparr> pathname = Some ''/updateCheck'',
             query = [(''deploymentKey'', QString ''K''), (''appVersion'', QString ''2''),
                      (''clientUniqueId'', QString ''c1''), (''label'', QString ''v3'')] \<rparr>
      else if originalUrl = ''/updateCheck?deploymentKey=K&beta=true&appVersion=2&packageHash=H1''
      then \<lparr> pathname = Some ''/updateCheck'',
             query = [(''deploymentKey'', QString ''K''), (''beta'', QString ''true''),
                      (''appVersion'', QString ''2''), (''packageHash'', QString ''H1'')] \<rparr>
      else if originalUrl = ''/updateCheck?deploymentKey=K&appVersion=2''
      then \<lparr> pathname = Some ''/updateCheck'',
             query = [(''deploymentKey'', QString ''K''), (''appVersion'', QString ''2'')] \<rparr>
      else if originalUrl = ''/updateCheck?deploymentKey=K&appVersion=2.0.0''
      then \<lparr> pathname = Some ''/updateCheck'',
             query = [(''deploymentKey'', QString ''K''), (''appVersion'', QString ''2.0.0'')] \<rparr>
      else \<lparr> pathname = None, query = [] \<rparr>)"

section \<open>Notions used in the statements about the selection engine\<close>

text \<open>
  A candidate is a release that the walk considers for selection: it is not the release
  of the client, not disabled, and it applies to the request. The rollout admits the
  request when the release is rolled out to all, the request asks for beta releases, or
  the client is in the cohort. \<open>mandatory\<close> is the truthiness of \<open>isMandatory\<close>.
\<close>

definition candidate :: "Host \<Rightarrow> SelectionRequest \<Rightarrow> CachedRelease \<Rightarrow> bool" where
  "candidate env req release =
     (\<not> isClientPackage release (requestLabel req) (requestPackageHash req)
      \<and> \<not> truthyBool (CachedRelease.isDisabled release)
      \<and> releaseApplies env req release)"

definition rolloutAdmits :: "Host \<Rightarrow> SelectionRequest \<Rightarrow> CachedRelease \<Rightarrow> bool" where
  "rolloutAdmits env req release =
     (\<not> isUnfinishedRollout (CachedRelease.rollout release)
      \<or> betaRequested req
      \<or> isClientSelectedForRollout env release (clientUniqueId req) (releaseKeyOf release))"

definition mandatory :: "CachedRelease \<Rightarrow> bool" where
  "mandatory release = truthyBool (CachedRelease.isMandatory release)"

text \<open>
  \<open>newerThan a b\<close>: both entries are releases with an upload time, and \<open>a\<close> was uploaded
  after \<open>b\<close>. \<open>keptFor\<close> is the test of \<open>getUpdatePackageInfo\<close> that puts a package on the
  list.
\<close>

definition newerThan :: "CachedRelease option \<Rightarrow> CachedRelease option \<Rightarrow> bool" where
  "newerThan a b =
     (case (a, b) of
        (Some x, Some y) \<Rightarrow>
          (case (rolloutUploadTime x, rolloutUploadTime y) of
             (Some s, Some t) \<Rightarrow> t < s
           | _ \<Rightarrow> False)
      | _ \<Rightarrow> False)"

definition keptFor :: "Host \<Rightarrow> UpdateCheckRequest \<Rightarrow> Package \<Rightarrow> bool" where
  "keptFor env request pkg =
     (truthyBool (isCompanion request)
      \<or> satisfies env (normalizeAppVersion (UpdateCheckRequest.appVersion request))
           (Package.appVersion pkg))"

text \<open>
  An instance: a host without proxy whose version test is equality, a history of two
  releases (the newer one mandatory, at a rollout of 50), the cached list built from it,
  a request of the client \<open>device1\<close>, which is outside the cohort of \<open>v2\<close>, the same request
  without client id, and two fetchers of diff maps.
\<close>

definition demoHost :: Host where
  "demoHost =
     \<lparr> updateCheckProxyUrl = None,
       rewriteUrl = (\<lambda>proxyUrl azureUrl. Inl (JsError ''Invalid URL'')),
       satisfies = (\<lambda>version range. version = range),
       dateNow = 5000 \<rparr>"

definition pkgV1 :: Package where
  "pkgV1 =
     \<lparr> Package.appVersion = ''1.0.0'', Package.blobUrl = ''https://blob/v1'',
       Package.description = None, diffPackageMap = None,
       Package.isDisabled = Some False, Package.isMandatory = Some False,
       Package.label = Some ''v1'', Package.packageHash = ''H1'',
       Package.rollout = None, Package.holdDurationMinutes = None,
       Package.rampDurationMinutes = None, Package.size' = 1000,
       Package.uploadTime = 1000 \<rparr>"

definition pkgV2 :: Package where
  "pkgV2 =
     \<lparr> Package.appVersion = ''1.0.0'', Package.blobUrl = ''https://blob/v2'',
       Package.description = None, diffPackageMap = None,
       Package.isDisabled = Some False, Package.isMandatory = Some True,
       Package.label = Some ''v2'', Package.packageHash = ''H2'',
       Package.rollout = Some 50, Package.holdDurationMinutes = None,
       Package.rampDurationMinutes = None, Package.size' = 2000,
       Package.uploadTime = 2000 \<rparr>"

definition demoRequest :: UpdateCheckRequest where
  "demoRequest =
     \<lparr> UpdateCheckRequest.appVersion = ''1.0.0'',
       UpdateCheckRequest.clientUniqueId = Some ''device1'',
       deploymentKey = ''K'', isCompanion = None, beta = None,
       UpdateCheckRequest.label = None, UpdateCheckRequest.packageHash = Some ''H0'' \<rparr>"

definition relV1 :: CachedRelease where
  "relV1 = convertToCachedRelease pkgV1"

definition relV2 :: CachedRelease where
  "relV2 = convertToCachedRelease pkgV2"

definition demoResponse :: CacheableResponse where
  "demoResponse = \<lparr> statusCode = 200, body = \<lparr> releases = [Some relV2, Some relV1] \<rparr> \<rparr>"

definition demoSelection :: SelectionRequest where
  "demoSelection =
     \<lparr> clientUniqueId = ''device1'', betaRequested = False, requestLabel = [],
       requestPackageHash = ''H0'', normalizedAppVersion = ''1.0.0'',
       requestIsCompanion = False \<rparr>"

definition demoDiffMapFetcher :: DiffMapFetcher where
  "demoDiffMapFetcher hash =
     (if hash = ''H1''
      then Inr (Some [''H0'' \<mapsto> \<lparr> BlobInfo.size' = 10, url = ''https://blob/diff-H0-H1'' \<rparr>])
      else Inr None)"

definition failingDiffMapFetcher :: DiffMapFetcher where
  "failingDiffMapFetcher hash = Inl (JsError ''connection lost'')"

definition demoAnonymous :: SelectionRequest where
  "demoAnonymous =
     \<lparr> clientUniqueId = [], betaRequested = False, requestLabel = [],
       requestPackageHash = ''H0'', normalizedAppVersion = ''1.0.0'',
       requestIsCompanion = False \<rparr>"

section \<open>Notions used in the statements about the cache and the status report\<close>

text \<open>
  An instance of the Redis client: its store is a counter of the commands that still
  succeed, and every command after them fails with a connection error. \<open>getFailed\<close> and
  \<open>setFailed\<close> are the messages that the manager writes with the error.
\<close>

definition flakyClient :: "nat PromisifiedRedisClient" where
  "flakyClient =
     \<lparr> hget = (\<lambda>key field s.
                if s = 0 then (Inl (JsError ''ECONNRESET''), 0) else (Inr None, s - 1)),
       exists' = (\<lambda>key s.
                if s = 0 then (Inl (JsError ''ECONNRESET''), 0) else (Inr 0, s - 1)),
       hset = (\<lambda>key field v s.
                if s = 0 then (Inl (JsError ''ECONNRESET''), 0) else (Inr 1, s - 1)),
       expire = (\<lambda>key seconds s.
                if s = 0 then (Inl (JsError ''ECONNRESET''), 0) else (Inr 1, s - 1)) \<rparr>"

definition flakyManager :: "nat RedisManager" where
  "flakyManager =
     \<lparr> promisifiedOpsClient = Some flakyClient, promisifiedMetricsClient = Some flakyClient \<rparr>"

definition demoJsonParse :: "string \<Rightarrow> js_error + CacheableResponse" where
  "demoJsonParse serialized =
     (if serialized = ''{}'' then Inr \<lparr> statusCode = 200, body = \<lparr> releases = [] \<rparr> \<rparr>
      else Inl (JsError ''SyntaxError''))"

definition demoJsonStringify :: "CacheableResponse \<Rightarrow> string" where
  "demoJsonStringify response = ''{}''"

definition getFailed :: "string \<Rightarrow> string" where
  "getFailed expiryKey = ''[Redis] Error getting cached response for key '' @ expiryKey @ '':''"

definition setFailed :: "string \<Rightarrow> string" where
  "setFailed expiryKey = ''[Redis] Error setting cached response for key '' @ expiryKey @ '':''"

text \<open>A storage that answers with the demo response, one that fails, and a sender that succeeds.\<close>

definition demoCreateResponse :: "nat \<Rightarrow> (CacheableResponse option, nat) managed" where
  "demoCreateResponse s = ((Inr (Some demoResponse), []), s)"

definition failingCreateResponse :: "nat \<Rightarrow> (CacheableResponse option, nat) managed" where
  "failingCreateResponse s = ((Inl (JsError ''storage unavailable''), []), s)"

definition demoSendResponse :: "CacheableResponse \<Rightarrow> bool \<Rightarrow> nat \<Rightarrow> (unit, nat) managed" where
  "demoSendResponse response fromCache s = ((Inr (), []), s)"

text \<open>
  Two status reports for the release \<open>v2\<close>, with the status \<open>Downloaded\<close> and with the status
  \<open>Installed\<close>, and a metrics store whose calls all succeed.
\<close>

definition downloadedReport :: "string \<rightharpoonup> string" where
  "downloadedReport =
     [''deploymentKey'' \<mapsto> ''K'', ''appVersion'' \<mapsto> ''1.0.0'', ''label'' \<mapsto> ''v2'',
      ''status'' \<mapsto> ''Downloaded'']"

definition installedReport :: "string \<rightharpoonup> string" where
  "installedReport =
     [''deploymentKey'' \<mapsto> ''K'', ''appVersion'' \<mapsto> ''1.0.0'', ''label'' \<mapsto> ''v2'',
      ''status'' \<mapsto> ''Installed'']"

definition metricsOk :: "MetricsCall \<Rightarrow> js_error + string option" where
  "metricsOk call = Inr None"

chapter \<open>Properties\<close>

section \<open>The version normalizer\<close>

lemma takeWhile_run: "list_all P xs \<Longrightarrow> \<not> P y \<Longrightarrow> takeWhile P (xs @ y # ys) = xs"
  by (induction xs) simp_all

lemma dropWhile_run: "list_all P xs \<Longrightarrow> \<not> P y \<Longrightarrow> dropWhile P (xs @ y # ys) = y # ys"
  by (induction xs) simp_all

lemma dot_no_digit: "\<not> isDigit CHR ''.''"
  by (simp add: isDigit_def)

lemma dot_no_tag: "\<not> isTagChar CHR ''.''"
  by (simp add: isTagChar_def)

lemma digit_no_tag: "isDigit c \<Longrightarrow> \<not> isTagChar c"
  by (auto simp: isDigit_def isTagChar_def)

lemma matchesDigits_dot: "\<not> matchesDigits (xs @ CHR ''.'' # ys)"
  by (simp add: matchesDigits_def dot_no_digit)

lemma two_dots_no_match:
  assumes "list_all isDigit d1" and "list_all isDigit d2"
  shows "\<not> matchesMajorMinor (d1 @ CHR ''.'' # d2 @ CHR ''.'' # r)"
proof -
  have "dropWhile isDigit (d1 @ CHR ''.'' # d2 @ CHR ''.'' # r) = CHR ''.'' # d2 @ CHR ''.'' # r"
    using assms(1) by (simp add: dropWhile_run dot_no_digit)
  moreover have "dropWhile isDigit (d2 @ CHR ''.'' # r) = CHR ''.'' # r"
    using assms(2) by (simp add: dropWhile_run dot_no_digit)
  ultimately show ?thesis
    by (simp add: matchesMajorMinor_def Let_def dot_no_tag)
qed

lemma normalize_three_segments:
  assumes "list_all isDigit d1" and "list_all isDigit d2"
  shows "normalizeAppVersion (d1 @ CHR ''.'' # d2 @ CHR ''.'' # r) = d1 @ CHR ''.'' # d2 @ CHR ''.'' # r"
  using two_dots_no_match [OF assms] matchesDigits_dot
  by (simp add: normalizeAppVersion_def)

lemma matchesMajorMinor_shape:
  assumes "matchesMajorMinor v"
  obtains d1 d2 t where "v = d1 @ CHR ''.'' # d2 @ t" and "list_all isDigit d1"
    and "list_all isDigit d2" and "t = [] \<or> isTagChar (hd t)"
proof -
  define d1 where "d1 = takeWhile isDigit v"
  define rest where "rest = dropWhile isDigit v"
  have v: "v = d1 @ rest" by (simp add: d1_def rest_def)
  from assms obtain rest' where rest: "rest = CHR ''.'' # rest'"
    and mm: "takeWhile isDigit rest' \<noteq> []"
    and tg: "(case dropWhile isDigit rest' of [] \<Rightarrow> True
              | t # ts \<Rightarrow> isTagChar t \<and> \<not> list_ex isLineTerminator ts)"
    by (auto simp: matchesMajorMinor_def Let_def rest_def split: list.splits)
  define d2 where "d2 = takeWhile isDigit rest'"
  define t where "t = dropWhile isDigit rest'"
  have "v = d1 @ CHR ''.'' # d2 @ t"
    by (simp add: v rest d2_def t_def)
  moreover have "list_all isDigit d1"
    by (simp add: d1_def list_all_iff) (meson set_takeWhileD)
  moreover have "list_all isDigit d2"
    by (simp add: d2_def list_all_iff) (meson set_takeWhileD)
  moreover have "t = [] \<or> isTagChar (hd t)"
    using tg by (auto simp: t_def split: list.splits)
  ultimately show thesis by (rule that)
qed

lemma searchTag_none:
  assumes "list_all isDigit d1" and "list_all isDigit d2"
  shows "searchTag (d1 @ CHR ''.'' # d2) = None"
  using assms by (auto simp: searchTag_def list_ex_iff list_all_iff dot_no_tag digit_no_tag)

lemma searchTag_some:
  assumes "list_all isDigit d1" and "list_all isDigit d2" and "isTagChar c"
  shows "searchTag (d1 @ CHR ''.'' # d2 @ c # ts) = Some (length (d1 @ CHR ''.'' # d2))"
proof -
  have "list_all (\<lambda>c. \<not> isTagChar c) (d1 @ CHR ''.'' # d2)"
    using assms(1,2) by (auto simp: list_all_iff dot_no_tag digit_no_tag)
  then have "takeWhile (\<lambda>c. \<not> isTagChar c) ((d1 @ CHR ''.'' # d2) @ c # ts) = d1 @ CHR ''.'' # d2"
    using assms(3) by (intro takeWhile_run) simp_all
  then show ?thesis
    using assms(3) by (simp add: searchTag_def list_ex_iff) 
qed

lemma normalize_major_minor:
  assumes "matchesMajorMinor v"
  obtains d1 d2 r where "normalizeAppVersion v = d1 @ CHR ''.'' # d2 @ CHR ''.'' # r"
    and "list_all isDigit d1" and "list_all isDigit d2"
proof -
  from assms obtain d1 d2 t where v: "v = d1 @ CHR ''.'' # d2 @ t"
    and d1: "list_all isDigit d1" and d2: "list_all isDigit d2"
    and t: "t = [] \<or> isTagChar (hd t)"
    by (rule matchesMajorMinor_shape)
  have nd: "\<not> matchesDigits v" and ne: "v \<noteq> []"
    by (simp_all add: v matchesDigits_dot)
  show thesis
  proof (cases t)
    case Nil
    then have "normalizeAppVersion v = d1 @ CHR ''.'' # d2 @ CHR ''.'' # ''0''"
      using assms nd ne searchTag_none [OF d1 d2]
      by (simp add: normalizeAppVersion_def v)
    then show thesis using d1 d2 by (rule that)
  next
    case (Cons c ts)
    then have c: "isTagChar c" using t by simp
    have "searchTag v = Some (length (d1 @ CHR ''.'' # d2))"
      unfolding v Cons by (rule searchTag_some [OF d1 d2 c])
    moreover have "take (length (d1 @ CHR ''.'' # d2)) v = d1 @ CHR ''.'' # d2"
      and "drop (length (d1 @ CHR ''.'' # d2)) v = t"
      by (simp_all add: v)
    ultimately have "normalizeAppVersion v = d1 @ CHR ''.'' # d2 @ CHR ''.'' # (''0'' @ t)"
      using assms nd ne by (simp add: normalizeAppVersion_def)
    then show thesis using d1 d2 by (rule that)
  qed
qed

lemma normalizeAppVersion_twice:
  "normalizeAppVersion (normalizeAppVersion v) = normalizeAppVersion v"
proof -
  consider (empty) "v = []" | (digits) "v \<noteq> []" "matchesDigits v"
    | (mm) "v \<noteq> []" "\<not> matchesDigits v" "matchesMajorMinor v"
    | (other) "v \<noteq> []" "\<not> matchesDigits v" "\<not> matchesMajorMinor v"
    by blast
  then show ?thesis
  proof cases
    case empty
    then show ?thesis by (simp add: normalizeAppVersion_def)
  next
    case digits
    have n: "normalizeAppVersion v = v @ CHR ''.'' # ''0'' @ CHR ''.'' # ''0''"
      using digits by (simp add: normalizeAppVersion_def)
    have "list_all isDigit v" using digits by (simp add: matchesDigits_def)
    moreover have "list_all isDigit ''0''" by (simp add: isDigit_def)
    ultimately show ?thesis
      unfolding n by (rule normalize_three_segments)
  next
    case mm
    from mm(3) obtain d1 d2 r where "normalizeAppVersion v = d1 @ CHR ''.'' # d2 @ CHR ''.'' # r"
      and "list_all isDigit d1" and "list_all isDigit d2"
      by (rule normalize_major_minor)
    then show ?thesis by (simp add: normalize_three_segments)
  next
    case other
    then show ?thesis by (simp add: normalizeAppVersion_def)
  qed
qed

text \<open>
  C9. Normalizing a version string twice gives the same as normalizing it once, for every
  string; and a string of the form \<open>X.Y.Z\<close>, each segment made of digits, is returned as it
  is.
\<close>

theorem normalizeAppVersion_idempotent_and_fixes_three_segments:
  "normalizeAppVersion (normalizeAppVersion v) = normalizeAppVersion v
   \<and> (list_all isDigit x \<and> list_all isDigit y \<and> list_all isDigit z
      \<longrightarrow> normalizeAppVersion (x @ ''.'' @ y @ ''.'' @ z) = x @ ''.'' @ y @ ''.'' @ z)"
  using normalizeAppVersion_twice [of v] normalize_three_segments [of x y z]
  by simp

text \<open>
  An instance: \<open>2.1-beta\<close> is normalized to \<open>2.1.0-beta\<close>, which is normalized to itself, and
  \<open>10.4.37\<close> is returned as it is.
\<close>

theorem normalizeAppVersion_idempotent_and_fixes_three_segments_witness:
  "normalizeAppVersion (normalizeAppVersion ''2.1-beta'') = normalizeAppVersion ''2.1-beta''
   \<and> normalizeAppVersion ''2.1-beta'' = ''2.1.0-beta''
   \<and> list_all isDigit ''10'' \<and> list_all isDigit ''4'' \<and> list_all isDigit ''37''
   \<and> normalizeAppVersion ''10.4.37'' = ''10.4.37''"
proof -
  have d: "list_all isDigit ''10'' \<and> list_all isDigit ''4'' \<and> list_all isDigit ''37''"
    by (simp add: isDigit_def)
  have n: "normalizeAppVersion ''2.1-beta'' = ''2.1.0-beta''"
    by (simp add: normalizeAppVersion_def matchesDigits_def matchesMajorMinor_def
        searchTag_def isDigit_def isTagChar_def isLineTerminator_def)
  show ?thesis
    using normalizeAppVersion_idempotent_and_fixes_three_segments
      [of "''2.1-beta''" "''10''" "''4''" "''37''"] d n
    by simp
qed

section \<open>The rollout hash\<close>



lemma getHashCode_is_loop: "getHashCode s = getHashCode_loop s 0"
  by (cases s) (simp_all add: getHashCode_def)

text \<open>
  Each step adds at most \<open>2 ^ 31 + 255\<close> to the magnitude of the hash, so for a string of
  fewer than \<open>2 ^ 21\<close> characters every intermediate value is below \<open>2 ^ 53\<close>.
\<close>

lemma shiftLeft32_magnitude: "\<bar>shiftLeft32 x n\<bar> \<le> 2 ^ 31"
proof -
  have "- (2 ^ 31) \<le> sint (push_bit n (word_of_int x :: 32 word))"
    using sint_ge [of "push_bit n (word_of_int x :: 32 word)"] by simp
  moreover have "sint (push_bit n (word_of_int x :: 32 word)) < 2 ^ 31"
    using sint_lt [of "push_bit n (word_of_int x :: 32 word)"] by simp
  ultimately show ?thesis
    by (simp add: shiftLeft32_def abs_le_iff)
qed

lemma getHashCode_loop_magnitude:
  "\<bar>getHashCode_loop s h\<bar> \<le> \<bar>h\<bar> + int (length s) * (2 ^ 31 + 255)"
proof (induction s arbitrary: h)
  case Nil
  show ?case by simp
next
  case (Cons c s)
  have "(of_char c :: nat) < 256"
    by (rule nat_of_char_less_256)
  then have c: "int (of_char c) \<le> 255" by linarith
  have "\<bar>shiftLeft32 h 5 - h + int (of_char c)\<bar> \<le> \<bar>h\<bar> + (2 ^ 31 + 255)"
    using shiftLeft32_magnitude [of h 5] c by linarith
  then show ?case
    using Cons.IH [of "shiftLeft32 h 5 - h + int (of_char c)"]
    by (simp add: algebra_simps)
qed

lemma getHashCode_magnitude: "\<bar>getHashCode s\<bar> \<le> int (length s) * (2 ^ 31 + 255)"
  using getHashCode_loop_magnitude [of s 0] by (simp add: getHashCode_is_loop)



section \<open>The rounding of doubles\<close>

text \<open>
  The exponent brackets a positive number, rounding is monotone and idempotent, it is exact
  on the integers up to \<open>2 ^ 53\<close>, and its error is at most half a unit in the last place.
\<close>

lemma log2floor_bounds: "0 < n \<Longrightarrow> 2 ^ log2floor n \<le> n \<and> n < 2 ^ Suc (log2floor n)"
proof (induction n rule: log2floor.induct)
  case (1 n)
  show ?case
  proof (cases "n < 2")
    case True
    then have "n = 1" using "1.prems" by simp
    then show ?thesis by (simp add: log2floor.simps)
  next
    case False
    then have "0 < n div 2" by simp
    from "1.IH" [OF False this]
    have lo: "2 ^ log2floor (n div 2) \<le> n div 2"
      and hi: "n div 2 < 2 ^ Suc (log2floor (n div 2))" by simp_all
    have "log2floor n = Suc (log2floor (n div 2))"
      using False by (subst log2floor.simps) simp
    moreover have "2 * 2 ^ log2floor (n div 2) \<le> n" using lo by linarith
    moreover have "n < 2 * 2 ^ Suc (log2floor (n div 2))" using hi by linarith
    ultimately show ?thesis by simp
  qed
qed

lemma exponentOf_bounds:
  assumes "0 < x"
  shows "2 powi exponentOf x \<le> x \<and> x < 2 powi (exponentOf x + 1)"
proof (cases "1 \<le> x")
  case True
  define n where "n = \<lfloor>x\<rfloor>"
  have n: "0 < n" using True by (simp add: n_def)
  have e: "exponentOf x = int (log2floor n)"
    using True by (simp add: exponentOf_def n_def)
  from log2floor_bounds [OF n]
  have lo: "2 ^ log2floor n \<le> \<lfloor>x\<rfloor>" and hi: "\<lfloor>x\<rfloor> < 2 ^ Suc (log2floor n)"
    by (simp_all add: n_def)
  have "(of_int (2 ^ log2floor n) :: rat) \<le> x" using lo by (simp only: le_floor_iff)
  then have 1: "(2 :: rat) ^ log2floor n \<le> x" by simp
  have "x < of_int (2 ^ Suc (log2floor n))" using hi by (simp only: floor_less_iff)
  then have 2: "x < (2 :: rat) ^ Suc (log2floor n)" by simp
  have "(2 :: rat) powi (int (log2floor n) + 1) = 2 ^ Suc (log2floor n)"
    by (simp add: power_int_add)
  then show ?thesis using 1 2 by (simp add: e)
next
  case False
  define y where "y = 1 / x"
  define n where "n = \<lceil>y\<rceil> - 1"
  define k where "k = Suc (log2floor n)"
  have y: "1 < y" using False assms by (simp add: y_def)
  then have c: "2 \<le> \<lceil>y\<rceil>" by (simp add: le_ceiling_iff)
  then have n: "0 < n" by (simp add: n_def)
  have e: "exponentOf x = - int k"
    using False by (simp add: exponentOf_def n_def k_def y_def)
  from log2floor_bounds [OF n]
  have lo: "2 ^ log2floor n \<le> \<lceil>y\<rceil> - 1" and hi: "\<lceil>y\<rceil> - 1 < 2 ^ k"
    by (simp_all add: k_def n_def)
  have "\<lceil>y\<rceil> \<le> 2 ^ k" using hi by simp
  then have "y \<le> of_int (2 ^ k)" by (simp only: ceiling_le_iff)
  then have yk: "y \<le> 2 ^ k" by simp
  have "2 ^ log2floor n < \<lceil>y\<rceil>" using lo by simp
  then have "(of_int (2 ^ log2floor n) :: rat) < y" by (simp only: less_ceiling_iff)
  then have ky: "(2 :: rat) ^ log2floor n < y" by simp
  have 1: "2 powi (- int k) \<le> x"
  proof -
    have "1 / 2 ^ k \<le> 1 / y" using yk y by (simp add: frac_le)
    then show ?thesis using assms by (simp add: y_def power_int_minus_divide)
  qed
  have 2: "x < 2 powi (- int k + 1)"
  proof -
    have "1 / y < 1 / 2 ^ log2floor n" using ky by (simp add: frac_less2)
    moreover have "- int k + 1 = - int (log2floor n)" by (simp add: k_def)
    ultimately show ?thesis using assms by (simp add: y_def power_int_minus_divide)
  qed
  show ?thesis using 1 2 by (simp add: e)
qed

lemma powi_less_imp:
  assumes "(2 :: rat) powi a < 2 powi b"
  shows "a < b"
proof (rule ccontr)
  assume "\<not> a < b"
  then have "b \<le> a" by simp
  then have "(2 :: rat) powi b \<le> 2 powi a" by (rule power_int_increasing) simp
  then show False using assms by simp
qed
































lemma exponentOf_large_iff:
  assumes "0 < r"
  shows "1023 < exponentOf r \<longleftrightarrow> 2 ^ 1024 \<le> r"
proof
  assume "1023 < exponentOf r"
  then have "(2 :: rat) powi 1024 \<le> 2 powi exponentOf r"
    by (intro power_int_increasing) simp_all
  also have "\<dots> \<le> r" using exponentOf_bounds [OF assms] by simp
  finally show "2 ^ 1024 \<le> r" by simp
next
  assume "2 ^ 1024 \<le> r"
  then have "(2 :: rat) powi 1024 \<le> r" by simp
  also have "r < 2 powi (exponentOf r + 1)" using exponentOf_bounds [OF assms] by simp
  finally have "1024 < exponentOf r + 1" by (rule powi_less_imp)
  then show "1023 < exponentOf r" by simp
qed

lemma roundDouble_cases:
  "roundDouble x =
     (if 2 ^ 1024 \<le> roundFinite x then PosInfinity
      else if roundFinite x \<le> - (2 ^ 1024) then NegInfinity
      else Finite (roundFinite x))"
proof -
  consider "0 < roundFinite x" | "roundFinite x = 0" | "roundFinite x < 0" by linarith
  then show ?thesis
  proof cases
    case 1
    then show ?thesis
      using exponentOf_large_iff [of "roundFinite x"] by (simp add: roundDouble_def Let_def)
  next
    case 2
    then show ?thesis by (simp add: roundDouble_def)
  next
    case 3
    then have "0 < - roundFinite x" by simp
    from exponentOf_large_iff [OF this] 3 show ?thesis
      by (auto simp: roundDouble_def Let_def abs_if)
  qed
qed

lemma roundDouble_not_NaN [simp]: "roundDouble x \<noteq> NaN"
  by (simp add: roundDouble_cases)




lemma numLessEq_simps [simp]:
  "numLessEq (Finite x) (Finite y) = (x \<le> y)"
  "numLessEq NaN b = False"
  "numLessEq a NaN = False"
  "numLessEq NegInfinity b = (b \<noteq> NaN)"
  "numLessEq a PosInfinity = (a \<noteq> NaN)"
  "numLessEq PosInfinity (Finite y) = False"
  "numLessEq PosInfinity NegInfinity = False"
  "numLessEq (Finite x) NegInfinity = False"
  by (cases a; cases b; auto simp: numLessEq_def numEq_def)+




lemma numSub_infinite [simp]:
  "numSub PosInfinity (Finite y) = PosInfinity"
  "numSub NegInfinity (Finite y) = NegInfinity"
  by (simp_all add: numSub_def)

lemma mathMax_Finite [simp]: "mathMax (Finite x) (Finite y) = Finite (max x y)"
  by (simp add: mathMax_def max_def)

lemma mathMin_Finite [simp]: "mathMin (Finite x) (Finite y) = Finite (min x y)"
  by (simp add: mathMin_def min_def)










section \<open>The effective rollout\<close>
























text \<open>
  The arithmetic is that of doubles: ten minutes of ramp from an upload at 1000 and a
  rollout of 0 give \<open>2\<close> at 13003, where the exact value of the formula, \<open>2.0005\<close>, would
  be rounded to \<open>2.001\<close>. In the ramp of \<open>rampingRelease\<close> the value at 321000 is the double
  nearest to \<open>66.667\<close>.
\<close>

lemma getEffectiveRollout_in_doubles:
  "getEffectiveRollout (Some freshRelease) 13003 = Some (Finite 2)"
  "getEffectiveRollout (Some rampingRelease) 321000
     = Some (Finite (2345636534046163 / 35184372088832))"
  by code_simp+


text \<open>
  The third property needs more than \<open>now \<ge> u + h + r\<close>: when the sum \<open>h + r\<close> is not a
  double, the subtraction \<open>elapsedMs - holdMs\<close> can lose the whole ramp. With a hold of
  \<open>2 ^ 47\<close> minutes the doubles around \<open>h\<close> are 1024 apart, a ramp of 468.75 ms is over at
  \<open>now = h + 1024\<close> for an upload at 555.25, and the result is still the base rollout.
\<close>

lemma getEffectiveRollout_unrepresentable_sum:
  "holdMsOf longHold = Finite (2 ^ 47 * 60000)"
  "rampMsOf longHold = Finite (1875 / 4)"
  "(2221 / 4 :: rat) + 2 ^ 47 * 60000 + 1875 / 4 \<le> 2 ^ 47 * 60000 + 1024"
  "roundDouble (2 ^ 47 * 60000 + 1875 / 4) = Finite (2 ^ 47 * 60000)"
  "getEffectiveRollout (Some longHold) (2 ^ 47 * 60000 + 1024) = Some (Finite 50)"
  by code_simp+



section \<open>The cache key\<close>

lemma deleteClientFields_factors:
  "deleteClientFields q =
     AList.delete ''package_hash'' (AList.delete ''client_unique_id'' (withoutClientFields q))"
proof -
  have "AList.delete ''label'' (AList.delete ''package_hash'' r)
      = AList.delete ''package_hash'' (AList.delete ''label'' r)" for r :: query
    by (rule delete_twist)
  moreover have "AList.delete a (AList.delete ''client_unique_id'' r)
      = AList.delete ''client_unique_id'' (AList.delete a r)" for r :: query and a
    by (rule delete_twist)
  ultimately show ?thesis
    by (simp only: deleteClientFields_def withoutClientFields_def)
qed

lemma cacheKey_from_deleted:
  assumes "pathname (urlParse a) = pathname (urlParse b)"
    and "normalizeQueryAppVersion (deleteClientFields (query (urlParse a)))
       = normalizeQueryAppVersion (deleteClientFields (query (urlParse b)))"
  shows "buildUpdateCheckCacheKey urlParse stringify a cacheSchema
       = buildUpdateCheckCacheKey urlParse stringify b cacheSchema"
  using assms by (simp add: buildUpdateCheckCacheKey_def Let_def)

lemma cacheKey_client_fields:
  assumes "pathname (urlParse a) = pathname (urlParse b)"
    and "withoutClientFields (query (urlParse a)) = withoutClientFields (query (urlParse b))"
  shows "buildUpdateCheckCacheKey urlParse stringify a cacheSchema
       = buildUpdateCheckCacheKey urlParse stringify b cacheSchema"
  using assms by (intro cacheKey_from_deleted) (simp_all add: deleteClientFields_factors)

lemma normalize_2: "normalizeAppVersion ''2'' = ''2.0.0''"
  by (simp add: normalizeAppVersion_def matchesDigits_def isDigit_def)

lemma normalize_200: "normalizeAppVersion ''2.0.0'' = ''2.0.0''"
  using normalize_three_segments [of "''2''" "''0''" "''0''"] by (simp add: isDigit_def)

lemma deleteClientFields_update:
  "deleteClientFields (AList.update ''appVersion'' v q)
     = AList.update ''appVersion'' v (deleteClientFields q)"
  by (simp add: deleteClientFields_def delete_update)

lemma deleteClientFields_appVersion:
  "map_of (deleteClientFields q) ''appVersion'' = map_of q ''appVersion''"
  by (simp add: deleteClientFields_def delete_conv')

lemma normalizeQuery_appVersion_2:
  assumes "map_of q ''appVersion'' = Some (QString ''2'')"
  shows "normalizeQueryAppVersion (AList.update ''appVersion'' (QString ''2.0.0'') q)
       = normalizeQueryAppVersion q"
proof -
  let ?q' = "AList.update ''appVersion'' (QString ''2.0.0'') q"
  have a: "map_of ?q' ''appVersion'' = Some (QString ''2.0.0'')"
    by (simp add: update_conv')
  show ?thesis
    using assms a
    by (simp add: normalizeQueryAppVersion_def Let_def truthyQ_def normalize_2 normalize_200)
qed

lemma cacheKey_appVersion:
  assumes "pathname (urlParse c) = pathname (urlParse d)"
    and "map_of (query (urlParse c)) ''appVersion'' = Some (QString ''2'')"
    and "query (urlParse d) = AList.update ''appVersion'' (QString ''2.0.0'') (query (urlParse c))"
  shows "buildUpdateCheckCacheKey urlParse stringify c cacheSchema
       = buildUpdateCheckCacheKey urlParse stringify d cacheSchema"
proof -
  have "map_of (deleteClientFields (query (urlParse c))) ''appVersion'' = Some (QString ''2'')"
    using assms(2) by (simp add: deleteClientFields_appVersion)
  then have "normalizeQueryAppVersion (deleteClientFields (query (urlParse d)))
      = normalizeQueryAppVersion (deleteClientFields (query (urlParse c)))"
    unfolding assms(3) deleteClientFields_update by (rule normalizeQuery_appVersion_2)
  then show ?thesis
    using assms(1) by (intro cacheKey_from_deleted) simp_all
qed

text \<open>
  C6. Two URLs that differ only in the values or the presence of \<open>clientUniqueId\<close>, \<open>beta\<close>,
  \<open>packageHash\<close> or \<open>label\<close> have the same cache key; and so have two URLs that are equal
  except that \<open>appVersion\<close> is \<open>2\<close> in one and \<open>2.0.0\<close> in the other. This holds for every
  parser, serializer and cache schema.
\<close>

theorem buildUpdateCheckCacheKey_ignores_client_fields:
  "(pathname (urlParse a) = pathname (urlParse b)
      \<and> withoutClientFields (query (urlParse a)) = withoutClientFields (query (urlParse b))
    \<longrightarrow> buildUpdateCheckCacheKey urlParse stringify a cacheSchema
        = buildUpdateCheckCacheKey urlParse stringify b cacheSchema)
   \<and> (pathname (urlParse c) = pathname (urlParse d)
      \<and> map_of (query (urlParse c)) ''appVersion'' = Some (QString ''2'')
      \<and> query (urlParse d)
          = AList.update ''appVersion'' (QString ''2.0.0'') (query (urlParse c))
    \<longrightarrow> buildUpdateCheckCacheKey urlParse stringify c cacheSchema
        = buildUpdateCheckCacheKey urlParse stringify d cacheSchema)"
  using cacheKey_client_fields [of urlParse a b stringify cacheSchema]
    cacheKey_appVersion [of urlParse c d stringify cacheSchema]
  by blast

text \<open>
  An instance: four request URLs of the deployment \<open>K\<close> with the same key.
\<close>

theorem buildUpdateCheckCacheKey_ignores_client_fields_witness:
  "pathname (demoParse ''/updateCheck?deploymentKey=K&appVersion=2&clientUniqueId=c1&label=v3'')
     = pathname (demoParse ''/updateCheck?deploymentKey=K&beta=true&appVersion=2&packageHash=H1'')
   \<and> withoutClientFields
         (query (demoParse ''/updateCheck?deploymentKey=K&appVersion=2&clientUniqueId=c1&label=v3''))
     = withoutClientFields
         (query (demoParse ''/updateCheck?deploymentKey=K&beta=true&appVersion=2&packageHash=H1''))
   \<and> buildUpdateCheckCacheKey demoParse demoStringify
         ''/updateCheck?deploymentKey=K&appVersion=2&clientUniqueId=c1&label=v3'' (Some ''v2'')
     = buildUpdateCheckCacheKey demoParse demoStringify
         ''/updateCheck?deploymentKey=K&beta=true&appVersion=2&packageHash=H1'' (Some ''v2'')
   \<and> pathname (demoParse ''/updateCheck?deploymentKey=K&appVersion=2'')
     = pathname (demoParse ''/updateCheck?deploymentKey=K&appVersion=2.0.0'')
   \<and> map_of (query (demoParse ''/updateCheck?deploymentKey=K&appVersion=2'')) ''appVersion''
     = Some (QString ''2'')
   \<and> query (demoParse ''/updateCheck?deploymentKey=K&appVersion=2.0.0'')
     = AList.update ''appVersion'' (QString ''2.0.0'')
         (query (demoParse ''/updateCheck?deploymentKey=K&appVersion=2''))
   \<and> buildUpdateCheckCacheKey demoParse demoStringify
         ''/updateCheck?deploymentKey=K&appVersion=2'' (Some ''v2'')
     = buildUpdateCheckCacheKey demoParse demoStringify
         ''/updateCheck?deploymentKey=K&appVersion=2.0.0'' (Some ''v2'')
   \<and> buildUpdateCheckCacheKey demoParse demoStringify
         ''/updateCheck?deploymentKey=K&appVersion=2.0.0'' (Some ''v2'')
     = ''/updateCheck?deploymentKey=K&appVersion=2.0.0&__cacheSchema=v2''"
proof -
  have p: "pathname (demoParse ''/updateCheck?deploymentKey=K&appVersion=2&clientUniqueId=c1&label=v3'')
     = pathname (demoParse ''/updateCheck?deploymentKey=K&beta=true&appVersion=2&packageHash=H1'')"
    and p': "pathname (demoParse ''/updateCheck?deploymentKey=K&appVersion=2'')
     = pathname (demoParse ''/updateCheck?deploymentKey=K&appVersion=2.0.0'')"
    by (simp_all add: demoParse_def)
  have q: "withoutClientFields
         (query (demoParse ''/updateCheck?deploymentKey=K&appVersion=2&clientUniqueId=c1&label=v3''))
     = withoutClientFields
         (query (demoParse ''/updateCheck?deploymentKey=K&beta=true&appVersion=2&packageHash=H1''))"
    by (simp add: demoParse_def withoutClientFields_def)
  have m: "map_of (query (demoParse ''/updateCheck?deploymentKey=K&appVersion=2'')) ''appVersion''
     = Some (QString ''2'')"
    and v: "query (demoParse ''/updateCheck?deploymentKey=K&appVersion=2.0.0'')
     = AList.update ''appVersion'' (QString ''2.0.0'')
         (query (demoParse ''/updateCheck?deploymentKey=K&appVersion=2''))"
    by (simp_all add: demoParse_def)
  have k: "buildUpdateCheckCacheKey demoParse demoStringify
         ''/updateCheck?deploymentKey=K&appVersion=2.0.0'' (Some ''v2'')
     = ''/updateCheck?deploymentKey=K&appVersion=2.0.0&__cacheSchema=v2''"
    by (simp add: buildUpdateCheckCacheKey_def demoParse_def deleteClientFields_def
        normalizeQueryAppVersion_def truthyQ_def truthyStr_def toStringPath_def normalize_200)
  show ?thesis
    using buildUpdateCheckCacheKey_ignores_client_fields
      [of demoParse "''/updateCheck?deploymentKey=K&appVersion=2&clientUniqueId=c1&label=v3''"
        "''/updateCheck?deploymentKey=K&beta=true&appVersion=2&packageHash=H1''"
        demoStringify "Some ''v2''"
        "''/updateCheck?deploymentKey=K&appVersion=2''"
        "''/updateCheck?deploymentKey=K&appVersion=2.0.0''"]
      p p' q m v k
    by simp
qed

section \<open>The walk over the releases\<close>

lemma walk_null:
  "walkReleases env req (None # rest) su sr fm pm = walkReleases env req rest su sr fm pm"
  by simp

lemma walk_current_disabled:
  assumes "isClientPackage r (requestLabel req) (requestPackageHash req)"
    and "truthyBool (CachedRelease.isDisabled r)"
  shows "walkReleases env req (Some r # rest) su sr fm pm = walkReleases env req rest su sr fm pm"
  using assms by simp

lemma walk_current:
  assumes "isClientPackage r (requestLabel req) (requestPackageHash req)"
    and "\<not> truthyBool (CachedRelease.isDisabled r)"
  shows "walkReleases env req (Some r # rest) su sr fm pm =
     (case (su, sr) of (Some u, Some s) \<Rightarrow> Some (u, s, fm) | _ \<Rightarrow> None)"
  using assms by simp

lemma walk_disabled:
  assumes "truthyBool (CachedRelease.isDisabled r)"
  shows "walkReleases env req (Some r # rest) su sr fm pm = walkReleases env req rest su sr fm pm"
  using assms by (simp add: Let_def)

lemma walk_not_applicable:
  assumes "\<not> isClientPackage r (requestLabel req) (requestPackageHash req)"
    and "\<not> releaseApplies env req r"
  shows "walkReleases env req (Some r # rest) su sr fm pm = walkReleases env req rest su sr fm pm"
  using assms by simp

lemma walk_older:
  assumes "candidate env req r"
  shows "walkReleases env req (Some r # rest) (Some u) sr fm pm =
     walkReleases env req rest (Some u) sr (mandatory r \<or> fm) pm"
  using assms by (simp add: candidate_def mandatory_def)

lemma walk_select:
  assumes "candidate env req r" and "rolloutAdmits env req r"
  shows "walkReleases env req (Some r # rest) None sr fm pm =
     walkReleases env req rest (Some (createUpdateInfoFromRelease env r)) (Some r)
       (pm \<or> mandatory r) pm"
  using assms by (auto simp: candidate_def mandatory_def rolloutAdmits_def Let_def)

lemma walk_skip:
  assumes "candidate env req r" and "\<not> rolloutAdmits env req r"
  shows "walkReleases env req (Some r # rest) None sr fm pm =
     walkReleases env req rest None sr fm (mandatory r \<or> pm)"
  using assms by (auto simp: candidate_def mandatory_def rolloutAdmits_def Let_def)

declare walkReleases.simps(3) [simp del]

lemma entry_cases:
  obtains
    (skipped) "\<And>su sr fm pm.
        walkReleases env req (x # xs) su sr fm pm = walkReleases env req xs su sr fm pm"
      "\<And>r. x = Some r \<Longrightarrow> \<not> candidate env req r"
  | (current) r where "x = Some r"
      "\<And>su sr fm pm. walkReleases env req (x # xs) su sr fm pm =
         (case (su, sr) of (Some u, Some s) \<Rightarrow> Some (u, s, fm) | _ \<Rightarrow> None)"
      "\<not> candidate env req r"
  | (candidate) r where "x = Some r" "candidate env req r"
proof (cases x)
  case None
  then show thesis by (intro skipped) simp_all
next
  case (Some r)
  consider "truthyBool (CachedRelease.isDisabled r)"
    | "\<not> truthyBool (CachedRelease.isDisabled r)"
      "isClientPackage r (requestLabel req) (requestPackageHash req)"
    | "\<not> truthyBool (CachedRelease.isDisabled r)"
      "\<not> isClientPackage r (requestLabel req) (requestPackageHash req)"
      "\<not> releaseApplies env req r"
    | "candidate env req r"
    unfolding candidate_def by blast
  then show thesis
  proof cases
    case 1
    then show thesis
      using Some by (intro skipped) (simp_all add: walk_disabled candidate_def)
  next
    case 2
    then show thesis
      using Some by (intro current [of r]) (simp_all add: walk_current candidate_def)
  next
    case 3
    then show thesis
      using Some by (intro skipped) (simp_all add: walk_not_applicable candidate_def)
  next
    case 4
    then show thesis using Some by (intro candidate [of r])
  qed
qed

lemma walk_keeps_selected:
  "\<exists>fm'. walkReleases env req xs (Some u) (Some s) fm pm = Some (u, s, fm') \<and> (fm \<longrightarrow> fm')"
proof (induction xs arbitrary: fm)
  case Nil
  show ?case by simp
next
  case (Cons x xs)
  show ?case
  proof (cases rule: entry_cases [where x = x and xs = xs and env = env and req = req])
    case skipped
    then show ?thesis using Cons.IH [of fm] by simp
  next
    case (current r)
    then show ?thesis by simp
  next
    case (candidate r)
    then show ?thesis
      using Cons.IH [of "mandatory r \<or> fm"] by (simp add: walk_older) blast
  qed
qed

lemma walk_pending_forces:
  assumes "walkReleases env req xs None None fm True = Some (u, s, fm')"
  shows "fm'"
  using assms
proof (induction xs arbitrary: fm)
  case Nil
  then show ?case by simp
next
  case (Cons x xs)
  show ?case
  proof (cases rule: entry_cases [where x = x and xs = xs and env = env and req = req])
    case skipped
    then show ?thesis using Cons by simp
  next
    case (current r)
    then show ?thesis using Cons.prems by simp
  next
    case (candidate r)
    show ?thesis
    proof (cases "rolloutAdmits env req r")
      case True
      then have "walkReleases env req xs (Some (createUpdateInfoFromRelease env r)) (Some r)
          (True \<or> mandatory r) True = Some (u, s, fm')"
        using Cons.prems candidate by (simp add: walk_select)
      then show ?thesis
        using walk_keeps_selected [of env req xs "createUpdateInfoFromRelease env r" r True True]
        by auto
    next
      case False
      then have "walkReleases env req xs None None fm True = Some (u, s, fm')"
        using Cons.prems candidate by (simp add: walk_skip)
      then show ?thesis by (rule Cons.IH)
    qed
  qed
qed

lemma walk_selected_sound:
  assumes "walkReleases env req xs None None fm pm = Some (u, s, fm')"
  shows "Some s \<in> set xs \<and> candidate env req s \<and> rolloutAdmits env req s
         \<and> u = createUpdateInfoFromRelease env s \<and> (mandatory s \<longrightarrow> fm')"
  using assms
proof (induction xs arbitrary: fm pm)
  case Nil
  then show ?case by simp
next
  case (Cons x xs)
  show ?case
  proof (cases rule: entry_cases [where x = x and xs = xs and env = env and req = req])
    case skipped
    then have "walkReleases env req xs None None fm pm = Some (u, s, fm')"
      using Cons.prems by simp
    from Cons.IH [OF this] show ?thesis by simp
  next
    case (current r)
    then show ?thesis using Cons.prems by simp
  next
    case (candidate r)
    show ?thesis
    proof (cases "rolloutAdmits env req r")
      case True
      then have w: "walkReleases env req xs (Some (createUpdateInfoFromRelease env r)) (Some r)
          (pm \<or> mandatory r) pm = Some (u, s, fm')"
        using Cons.prems candidate by (simp add: walk_select)
      obtain fm'' where "walkReleases env req xs (Some (createUpdateInfoFromRelease env r))
          (Some r) (pm \<or> mandatory r) pm
          = Some (createUpdateInfoFromRelease env r, r, fm'')"
        and "(pm \<or> mandatory r) \<longrightarrow> fm''"
        using walk_keeps_selected by blast
      with w have "u = createUpdateInfoFromRelease env r" "s = r" "mandatory r \<longrightarrow> fm'"
        by auto
      then show ?thesis using candidate True by simp
    next
      case False
      then have "walkReleases env req xs None None fm (mandatory r \<or> pm) = Some (u, s, fm')"
        using Cons.prems candidate by (simp add: walk_skip)
      from Cons.IH [OF this] show ?thesis by simp
    qed
  qed
qed

section \<open>The cacheable response and the selection\<close>

lemma getUpdatePackageInfo_loop_eq:
  assumes "n \<le> length h"
  shows "getUpdatePackageInfo_loop env h request
           (normalizeAppVersion (UpdateCheckRequest.appVersion request)) n rels
       = rels @ map (\<lambda>pkg. Some (convertToCachedRelease pkg))
                  (filter (keptFor env request) (rev (take n h)))"
  using assms
proof (induction n arbitrary: rels)
  case 0
  show ?case by simp
next
  case (Suc n)
  then have n: "n < length h" by simp
  have "take (Suc n) h = take n h @ [h ! n]"
    using n by (rule take_Suc_conv_app_nth)
  then show ?case
    using Suc.IH n by (simp add: Let_def keptFor_def)
qed

lemma getUpdatePackageInfo_releases:
  "releases (getUpdatePackageInfo env h request)
     = map (\<lambda>pkg. Some (convertToCachedRelease pkg)) (filter (keptFor env request) (rev h))"
  by (cases "h = []") (simp_all add: getUpdatePackageInfo_def getUpdatePackageInfo_loop_eq)

lemma newerThan_converted:
  "newerThan (Some (convertToCachedRelease p)) (Some (convertToCachedRelease q))
     \<longleftrightarrow> Package.uploadTime q < Package.uploadTime p"
  by (simp add: newerThan_def convertToCachedRelease_def)

lemma releases_newest_first:
  assumes "sorted_wrt (<) (map Package.uploadTime h)"
  shows "sorted_wrt newerThan (releases (getUpdatePackageInfo env h request))"
proof -
  have "sorted_wrt (\<lambda>p q. Package.uploadTime p < Package.uploadTime q) h"
    using assms by (simp add: sorted_wrt_map)
  then have "sorted_wrt (\<lambda>p q. Package.uploadTime q < Package.uploadTime p) (rev h)"
    by (simp add: sorted_wrt_rev)
  then have "sorted_wrt (\<lambda>p q. Package.uploadTime q < Package.uploadTime p)
      (filter (keptFor env request) (rev h))"
    by (rule sorted_wrt_filter)
  then show ?thesis
    by (simp add: getUpdatePackageInfo_releases sorted_wrt_map newerThan_converted)
qed

lemma releases_demo: "releases (getUpdatePackageInfo demoHost [pkgV1, pkgV2] demoRequest) = releases (body demoResponse)"
  by (simp add: getUpdatePackageInfo_releases keptFor_def demoHost_def demoRequest_def pkgV1_def pkgV2_def demoResponse_def relV1_def relV2_def normalize_three_segments [of "''1''" "''0''" "''0''", simplified] isDigit_def)

lemma hydrate_resolves:
  "\<exists>h w. hydrateDiffPayloadForRelease env u (Some s) rph fetcher = Inr (h, w)"
  by (simp add: hydrateDiffPayloadForRelease_def split: sum.split)

lemma hydrate_keeps:
  assumes "hydrateDiffPayloadForRelease env u (Some s) rph fetcher = Inr (h, w)"
  shows "PackageInfo.label h = PackageInfo.label u
         \<and> PackageInfo.packageHash h = PackageInfo.packageHash u
         \<and> PackageInfo.isMandatory h = PackageInfo.isMandatory u
         \<and> isAvailable h = isAvailable u"
  using assms
  by (auto simp: hydrateDiffPayloadForRelease_def applyDiffPayload_def
      split: sum.splits if_splits option.splits)

lemma hydrate_diff:
  assumes "rph \<noteq> []" and "fetcher (CachedRelease.packageHash s) = Inr (Some diffMap)"
    and "diffMap rph = Some diff"
  shows "hydrateDiffPayloadForRelease env u (Some s) rph fetcher
       = Inr (u\<lparr> downloadURL := Some (proxyBlobUrl env (url diff)),
                  packageSize := Some (BlobInfo.size' diff) \<rparr>,
              proxyBlobUrl_console env (url diff))"
  using assms
  by (simp add: hydrateDiffPayloadForRelease_def applyDiffPayload_def
      applyDiffPayload_console_def)

lemma hydrate_failure:
  assumes "rph \<noteq> []" and "fetcher (CachedRelease.packageHash s) = Inl err"
  shows "hydrateDiffPayloadForRelease env u (Some s) rph fetcher
       = Inr (u, [ConsoleWarn ''Failed to hydrate diff package map for updateCheck'' err])"
  using assms by (simp add: hydrateDiffPayloadForRelease_def)

text \<open>
  With a proxy whose rewriting throws, \<open>proxyBlobUrl\<close> returns the URL that it was given and
  warns. A request whose package hash is the name of an inherited property of the diff map,
  such as \<open>constructor\<close>, gets an update without URL and size.
\<close>

lemma proxyBlobUrl_warns:
  assumes "updateCheckProxyUrl env = Some p" and "p \<noteq> []" and "rewriteUrl env p a = Inl e"
  shows "proxyBlobUrl env a = a"
    and "proxyBlobUrl_console env a = [ConsoleWarn ''Failed to proxy blob URL:'' e]"
  using assms by (simp_all add: proxyBlobUrl_def proxyBlobUrl_console_def truthyStr_def)

lemma applyDiffPayload_inherited:
  assumes "diffMap ''constructor'' = None" and "updateCheckProxyUrl env = None"
  shows "applyDiffPayload env u (Some diffMap) ''constructor''
         = u\<lparr> downloadURL := None, packageSize := None \<rparr>"
    and "applyDiffPayload_console env (Some diffMap) ''constructor'' = []"
  using assms
  by (simp_all add: applyDiffPayload_def applyDiffPayload_console_def objectPrototypeKeys_def
      proxyBlobUrl_undefined_def proxyBlobUrl_undefined_console_def proxyBlobUrl_console_def
      truthyStr_def)

lemma finalize_fields:
  "PackageInfo.label (finalizeUpdateCheckResponse h s fm raw nav) = PackageInfo.label h"
  "PackageInfo.packageHash (finalizeUpdateCheckResponse h s fm raw nav) = PackageInfo.packageHash h"
  "isAvailable (finalizeUpdateCheckResponse h s fm raw nav) = isAvailable h"
  "downloadURL (finalizeUpdateCheckResponse h s fm raw nav) = downloadURL h"
  "packageSize (finalizeUpdateCheckResponse h s fm raw nav) = packageSize h"
  "PackageInfo.isMandatory (finalizeUpdateCheckResponse h s fm raw nav)
     = (if fm then Some True else PackageInfo.isMandatory h)"
  by (simp_all add: finalizeUpdateCheckResponse_def Let_def)

lemma build_selected:
  assumes "walkReleases env
             \<lparr> clientUniqueId = cid, betaRequested = bt, requestLabel = rl,
               requestPackageHash = rph, normalizedAppVersion = nav,
               requestIsCompanion = cmp \<rparr>
             (releases (body response)) None None False False = Some (u, s, fm)"
  shows "buildUpdateCheckBody env response cid bt rl rph raw nav cmp fetcher
       = (case hydrateDiffPayloadForRelease env u (Some s) rph fetcher of
            Inl error \<Rightarrow> Inl error
          | Inr (h, w) \<Rightarrow>
              Inr (finalizeUpdateCheckResponse h s fm raw nav,
                   createUpdateInfoFromRelease_console env s @ w))"
  using assms by (simp add: buildUpdateCheckBody_def Let_def)

lemma build_no_update:
  assumes "walkReleases env
             \<lparr> clientUniqueId = cid, betaRequested = bt, requestLabel = rl,
               requestPackageHash = rph, normalizedAppVersion = nav,
               requestIsCompanion = cmp \<rparr>
             (releases (body response)) None None False False = None"
    and "buildUpdateCheckBody env response cid bt rl rph raw nav cmp fetcher = Inr (upd, w)"
  shows "\<not> isAvailable upd"
  using assms by (auto simp: buildUpdateCheckBody_def Let_def buildNoUpdateResponse_def)

lemma walk_skipped_for_rollout:
  assumes "walkReleases env req (pre @ Some s # post) None None fm pm = Some (u, s, fm')"
    and "Some s \<notin> set pre" and "Some r \<in> set pre" and "candidate env req r"
  shows "\<not> rolloutAdmits env req r \<and> (mandatory r \<longrightarrow> fm')"
  using assms(1,2,3)
proof (induction pre arbitrary: fm pm)
  case Nil
  then show ?case by simp
next
  case (Cons x pre)
  let ?xs = "pre @ Some s # post"
  have walk: "walkReleases env req (x # ?xs) None None fm pm = Some (u, s, fm')"
    using Cons.prems(1) by simp
  have s_pre: "Some s \<notin> set pre" and xs: "x \<noteq> Some s"
    using Cons.prems(2) by auto
  show ?case
  proof (cases rule: entry_cases [where x = x and xs = ?xs and env = env and req = req])
    case skipped
    then have w: "walkReleases env req ?xs None None fm pm = Some (u, s, fm')"
      using walk by simp
    have "x \<noteq> Some r" using skipped(2) assms(4) by blast
    then have "Some r \<in> set pre" using Cons.prems(3) by simp
    from Cons.IH [OF w s_pre this] show ?thesis .
  next
    case (current c)
    then show ?thesis using walk by simp
  next
    case (candidate c)
    show ?thesis
    proof (cases "rolloutAdmits env req c")
      case True
      then have w: "walkReleases env req ?xs (Some (createUpdateInfoFromRelease env c)) (Some c)
          (pm \<or> mandatory c) pm = Some (u, s, fm')"
        using walk candidate by (simp add: walk_select)
      obtain fm'' where "walkReleases env req ?xs (Some (createUpdateInfoFromRelease env c))
          (Some c) (pm \<or> mandatory c) pm
          = Some (createUpdateInfoFromRelease env c, c, fm'')"
        using walk_keeps_selected by blast
      with w have "s = c" by simp
      then show ?thesis using xs candidate(1) by simp
    next
      case False
      then have w: "walkReleases env req ?xs None None fm (mandatory c \<or> pm) = Some (u, s, fm')"
        using walk candidate by (simp add: walk_skip)
      show ?thesis
      proof (cases "c = r")
        case True
        have "mandatory r \<longrightarrow> fm'"
        proof
          assume "mandatory r"
          then have "walkReleases env req ?xs None None fm True = Some (u, s, fm')"
            using w True by simp
          then show fm' by (rule walk_pending_forces)
        qed
        then show ?thesis using False True by simp
      next
        case False
        then have "Some r \<in> set pre" using Cons.prems(3) candidate(1) by simp
        from Cons.IH [OF w s_pre this] show ?thesis .
      qed
    qed
  qed
qed

text \<open>
  C4. Let the walk over the releases of the response select the release \<open>s\<close>, which stands
  in the list after the entries \<open>pre\<close> (the newer releases, walked before it). If a release
  \<open>r\<close> among \<open>pre\<close> is a candidate (applicable, not disabled, not the release of the client)
  and mandatory, then \<open>r\<close> was passed over because its rollout does not admit the request,
  and \<open>buildUpdateCheckBody\<close> returns an update with \<open>isMandatory = true\<close>.
\<close>

theorem buildUpdateCheckBody_forwards_mandatory:
  assumes "req = \<lparr> clientUniqueId = cid, betaRequested = bt, requestLabel = rl,
                   requestPackageHash = rph, normalizedAppVersion = nav,
                   requestIsCompanion = cmp \<rparr>"
    and "walkReleases env req (releases (body response)) None None False False
           = Some (u, s, fm)"
    and "releases (body response) = pre @ Some s # post" and "Some s \<notin> set pre"
    and "Some r \<in> set pre" and "candidate env req r" and "mandatory r"
  shows "\<not> rolloutAdmits env req r
         \<and> (\<exists>upd w. buildUpdateCheckBody env response cid bt rl rph raw nav cmp fetcher
                       = Inr (upd, w)
               \<and> PackageInfo.isMandatory upd = Some True)"
proof -
  have "\<not> rolloutAdmits env req r \<and> (mandatory r \<longrightarrow> fm)"
    using assms(2) unfolding assms(3)
    by (rule walk_skipped_for_rollout [OF _ assms(4,5,6)])
  then have r: "\<not> rolloutAdmits env req r" and fm: fm
    using assms(7) by simp_all
  obtain h w where h: "hydrateDiffPayloadForRelease env u (Some s) rph fetcher = Inr (h, w)"
    using hydrate_resolves by blast
  have "buildUpdateCheckBody env response cid bt rl rph raw nav cmp fetcher
      = Inr (finalizeUpdateCheckResponse h s fm raw nav,
             createUpdateInfoFromRelease_console env s @ w)"
    using assms(2) unfolding assms(1) by (simp add: build_selected h)
  then show ?thesis
    using r fm by (simp add: finalize_fields)
qed

lemma relV1_fields:
  "CachedRelease.label relV1 = Some ''v1''" "CachedRelease.packageHash relV1 = ''H1''"
  "CachedRelease.appVersion relV1 = ''1.0.0''" "CachedRelease.isDisabled relV1 = Some False"
  "CachedRelease.isMandatory relV1 = Some False" "CachedRelease.rollout relV1 = None"
  "CachedRelease.blobUrl relV1 = ''https://blob/v1''" "CachedRelease.size' relV1 = 1000"
  "rolloutUploadTime relV1 = Some 1000"
  by (simp_all add: relV1_def pkgV1_def convertToCachedRelease_def)

lemma relV2_fields:
  "CachedRelease.label relV2 = Some ''v2''" "CachedRelease.packageHash relV2 = ''H2''"
  "CachedRelease.appVersion relV2 = ''1.0.0''" "CachedRelease.isDisabled relV2 = Some False"
  "CachedRelease.isMandatory relV2 = Some True" "CachedRelease.rollout relV2 = Some 50"
  "rolloutHoldDurationMinutes relV2 = None" "rolloutRampDurationMinutes relV2 = None"
  "rolloutUploadTime relV2 = Some 2000"
  by (simp_all add: relV2_def pkgV2_def convertToCachedRelease_def)

lemma relV1_not_relV2: "relV1 \<noteq> relV2"
  using relV1_fields(2) relV2_fields(2) by auto

lemma demo_no_proxy:
  "proxyBlobUrl demoHost x = x" "proxyBlobUrl_console demoHost x = []"
  "createUpdateInfoFromRelease_console demoHost r = []"
  by (simp_all add: proxyBlobUrl_def proxyBlobUrl_console_def
      createUpdateInfoFromRelease_console_def demoHost_def truthyStr_def)

lemma demo_candidates:
  "candidate demoHost demoSelection relV1" "candidate demoHost demoSelection relV2"
  by (simp_all add: candidate_def demoSelection_def demoHost_def isClientPackage_def
      releaseApplies_def truthyBool_def relV1_fields relV2_fields)

lemma demo_mandatory: "mandatory relV2" "\<not> mandatory relV1"
  by (simp_all add: mandatory_def truthyBool_def relV1_fields relV2_fields)

lemma device1_outside_cohort: "\<not> isSelectedForRollout ''device1'' 50 ''v2''"
  by (simp add: isSelectedForRollout_def DELIMITER_def getHashCode_def shiftLeft32_def)

lemma demo_rollout:
  "rolloutAdmits demoHost demoSelection relV1" "\<not> rolloutAdmits demoHost demoSelection relV2"
proof -
  show "rolloutAdmits demoHost demoSelection relV1"
    by (simp add: rolloutAdmits_def isUnfinishedRollout_def relV1_fields)
  have "getEffectiveRollout
          (Some \<lparr> RolloutComputationInput.rollout = Some 50,
                  RolloutComputationInput.holdDurationMinutes = None,
                  RolloutComputationInput.rampDurationMinutes = None,
                  RolloutComputationInput.uploadTime = Some 2000 \<rparr>) 5000
        = Some (Finite 50)"
    by code_simp
  then show "\<not> rolloutAdmits demoHost demoSelection relV2"
    using device1_outside_cohort
    by (simp add: rolloutAdmits_def isUnfinishedRollout_def isClientSelectedForRollout_def
        releaseKeyOf_def truthyStr_def demoSelection_def demoHost_def relV2_fields)
qed

lemma demo_walk:
  "walkReleases demoHost demoSelection (releases (body demoResponse)) None None False False
     = Some (createUpdateInfoFromRelease demoHost relV1, relV1, True)"
  by (simp add: demoResponse_def walk_skip walk_select demo_candidates demo_rollout
      demo_mandatory)

text \<open>
  An instance: \<open>v2\<close> is mandatory and at a rollout of 50 that leaves \<open>device1\<close> out, so the
  older \<open>v1\<close> is selected and returned as mandatory.
\<close>

theorem buildUpdateCheckBody_forwards_mandatory_witness:
  "demoSelection = \<lparr> clientUniqueId = ''device1'', betaRequested = False, requestLabel = [],
                      requestPackageHash = ''H0'', normalizedAppVersion = ''1.0.0'',
                      requestIsCompanion = False \<rparr>
   \<and> walkReleases demoHost demoSelection (releases (body demoResponse)) None None False False
       = Some (createUpdateInfoFromRelease demoHost relV1, relV1, True)
   \<and> releases (body demoResponse) = [Some relV2] @ Some relV1 # []
   \<and> Some relV1 \<notin> set [Some relV2] \<and> Some relV2 \<in> set [Some relV2]
   \<and> candidate demoHost demoSelection relV2 \<and> mandatory relV2
   \<and> \<not> rolloutAdmits demoHost demoSelection relV2
   \<and> (\<exists>upd w. buildUpdateCheckBody demoHost demoResponse ''device1'' False [] ''H0''
                   ''1.0.0'' ''1.0.0'' False demoDiffMapFetcher = Inr (upd, w)
          \<and> PackageInfo.isMandatory upd = Some True)"
proof -
  have q: "demoSelection = \<lparr> clientUniqueId = ''device1'', betaRequested = False,
      requestLabel = [], requestPackageHash = ''H0'', normalizedAppVersion = ''1.0.0'',
      requestIsCompanion = False \<rparr>"
    by (simp add: demoSelection_def)
  have l: "releases (body demoResponse) = [Some relV2] @ Some relV1 # []"
    by (simp add: demoResponse_def)
  have n: "Some relV1 \<notin> set [Some relV2]" and m: "Some relV2 \<in> set [Some relV2]"
    using relV1_not_relV2 by simp_all
  show ?thesis
    using buildUpdateCheckBody_forwards_mandatory
      [OF q demo_walk l n m demo_candidates(2) demo_mandatory(1),
        of "''1.0.0''" demoDiffMapFetcher]
      q demo_walk l n m demo_candidates(2) demo_mandatory(1)
    by blast
qed

text \<open>
  C8. Let the walk select the release \<open>s\<close> and let \<open>requestPackageHash\<close> be set. If the fetch
  of the diff map of \<open>s\<close> succeeds and the map has an entry for \<open>requestPackageHash\<close>, the
  returned update has the (proxied) URL and the size of that entry. If the fetch fails,
  \<open>buildUpdateCheckBody\<close> still resolves: the update keeps the (proxied) URL and the size of
  the full bundle of \<open>s\<close>, and the error is only written to the console. In both cases the
  console holds nothing else but what \<open>proxyBlobUrl\<close> writes for the URLs that it is given.
\<close>

theorem buildUpdateCheckBody_diff_payload:
  assumes "req = \<lparr> clientUniqueId = cid, betaRequested = bt, requestLabel = rl,
                   requestPackageHash = rph, normalizedAppVersion = nav,
                   requestIsCompanion = cmp \<rparr>"
    and "walkReleases env req (releases (body response)) None None False False
           = Some (u, s, fm)"
    and "rph \<noteq> []"
  shows "(fetcher (CachedRelease.packageHash s) = Inr (Some diffMap) \<and> diffMap rph = Some diff
          \<longrightarrow> (\<exists>upd. buildUpdateCheckBody env response cid bt rl rph raw nav cmp fetcher
                        = Inr (upd, proxyBlobUrl_console env (CachedRelease.blobUrl s)
                                    @ proxyBlobUrl_console env (url diff))
                 \<and> downloadURL upd = Some (proxyBlobUrl env (url diff))
                 \<and> packageSize upd = Some (BlobInfo.size' diff)))
         \<and> (failing (CachedRelease.packageHash s) = Inl err
          \<longrightarrow> (\<exists>upd. buildUpdateCheckBody env response cid bt rl rph raw nav cmp failing
                        = Inr (upd, proxyBlobUrl_console env (CachedRelease.blobUrl s)
                                    @ [ConsoleWarn
                                        ''Failed to hydrate diff package map for updateCheck''
                                        err])
                 \<and> downloadURL upd = Some (proxyBlobUrl env (CachedRelease.blobUrl s))
                 \<and> packageSize upd = Some (CachedRelease.size' s)))"
proof -
  have w: "walkReleases env
      \<lparr> clientUniqueId = cid, betaRequested = bt, requestLabel = rl,
        requestPackageHash = rph, normalizedAppVersion = nav, requestIsCompanion = cmp \<rparr>
      (releases (body response)) None None False False = Some (u, s, fm)"
    using assms(1,2) by simp
  have u: "u = createUpdateInfoFromRelease env s"
    using walk_selected_sound [OF assms(2)] by simp
  have full: "downloadURL u = Some (proxyBlobUrl env (CachedRelease.blobUrl s))"
    "packageSize u = Some (CachedRelease.size' s)"
    by (simp_all add: u createUpdateInfoFromRelease_def)
  have "\<exists>upd. buildUpdateCheckBody env response cid bt rl rph raw nav cmp fetcher
            = Inr (upd, proxyBlobUrl_console env (CachedRelease.blobUrl s)
                        @ proxyBlobUrl_console env (url diff))
          \<and> downloadURL upd = Some (proxyBlobUrl env (url diff))
          \<and> packageSize upd = Some (BlobInfo.size' diff)"
    if "fetcher (CachedRelease.packageHash s) = Inr (Some diffMap)" and "diffMap rph = Some diff"
    using hydrate_diff [of rph fetcher s diffMap diff env u] assms(3) that
    by (simp add: build_selected [OF w] finalize_fields createUpdateInfoFromRelease_console_def)
  moreover have "\<exists>upd. buildUpdateCheckBody env response cid bt rl rph raw nav cmp failing
            = Inr (upd, proxyBlobUrl_console env (CachedRelease.blobUrl s)
                        @ [ConsoleWarn ''Failed to hydrate diff package map for updateCheck''
                             err])
          \<and> downloadURL upd = Some (proxyBlobUrl env (CachedRelease.blobUrl s))
          \<and> packageSize upd = Some (CachedRelease.size' s)"
    if "failing (CachedRelease.packageHash s) = Inl err"
    using hydrate_failure [of rph failing s err env u] assms(3) that
    by (simp add: build_selected [OF w] finalize_fields full
        createUpdateInfoFromRelease_console_def)
  ultimately show ?thesis by blast
qed

text \<open>
  An instance: the client has the package \<open>H0\<close> and \<open>v1\<close> is selected. With the diff map of
  \<open>v1\<close> the update is the diff from \<open>H0\<close>; with a fetcher that fails it is the full bundle.
\<close>

theorem buildUpdateCheckBody_diff_payload_witness:
  "demoSelection = \<lparr> clientUniqueId = ''device1'', betaRequested = False, requestLabel = [],
                      requestPackageHash = ''H0'', normalizedAppVersion = ''1.0.0'',
                      requestIsCompanion = False \<rparr>
   \<and> walkReleases demoHost demoSelection (releases (body demoResponse)) None None False False
       = Some (createUpdateInfoFromRelease demoHost relV1, relV1, True)
   \<and> ''H0'' \<noteq> []
   \<and> demoDiffMapFetcher (CachedRelease.packageHash relV1)
       = Inr (Some [''H0'' \<mapsto> \<lparr> BlobInfo.size' = 10, url = ''https://blob/diff-H0-H1'' \<rparr>])
   \<and> [''H0'' \<mapsto> \<lparr> BlobInfo.size' = 10, url = ''https://blob/diff-H0-H1'' \<rparr>] ''H0''
       = Some \<lparr> BlobInfo.size' = 10, url = ''https://blob/diff-H0-H1'' \<rparr>
   \<and> (\<exists>upd. buildUpdateCheckBody demoHost demoResponse ''device1'' False [] ''H0''
                 ''1.0.0'' ''1.0.0'' False demoDiffMapFetcher = Inr (upd, [])
          \<and> downloadURL upd = Some ''https://blob/diff-H0-H1'' \<and> packageSize upd = Some 10)
   \<and> failingDiffMapFetcher (CachedRelease.packageHash relV1) = Inl (JsError ''connection lost'')
   \<and> (\<exists>upd. buildUpdateCheckBody demoHost demoResponse ''device1'' False [] ''H0''
                 ''1.0.0'' ''1.0.0'' False failingDiffMapFetcher
               = Inr (upd, [ConsoleWarn ''Failed to hydrate diff package map for updateCheck''
                              (JsError ''connection lost'')])
          \<and> downloadURL upd = Some ''https://blob/v1'' \<and> packageSize upd = Some 1000)"
proof -
  have q: "demoSelection = \<lparr> clientUniqueId = ''device1'', betaRequested = False,
      requestLabel = [], requestPackageHash = ''H0'', normalizedAppVersion = ''1.0.0'',
      requestIsCompanion = False \<rparr>"
    by (simp add: demoSelection_def)
  have h: "''H0'' \<noteq> []" by simp
  have f: "demoDiffMapFetcher (CachedRelease.packageHash relV1)
       = Inr (Some [''H0'' \<mapsto> \<lparr> BlobInfo.size' = 10, url = ''https://blob/diff-H0-H1'' \<rparr>])"
    and g: "failingDiffMapFetcher (CachedRelease.packageHash relV1)
       = Inl (JsError ''connection lost'')"
    by (simp_all add: demoDiffMapFetcher_def failingDiffMapFetcher_def relV1_fields)
  note p = demo_no_proxy
  show ?thesis
    using buildUpdateCheckBody_diff_payload [OF q demo_walk h,
        of demoDiffMapFetcher
          "[''H0'' \<mapsto> \<lparr> BlobInfo.size' = 10, url = ''https://blob/diff-H0-H1'' \<rparr>]"
          "\<lparr> BlobInfo.size' = 10, url = ''https://blob/diff-H0-H1'' \<rparr>"
          "''1.0.0''" failingDiffMapFetcher "JsError ''connection lost''"]
      q demo_walk f g
    by (simp add: p relV1_fields)
qed

lemma no_client_no_cohort: "isClientSelectedForRollout env r [] key = False"
  by (simp add: isClientSelectedForRollout_def)

text \<open>
  C10. \<open>isClientSelectedForRollout\<close> is false for an empty client id. For a request with
  an empty client id that does not ask for beta releases, a release that the walk selects
  is on the list and its rollout is finished; and an update that \<open>buildUpdateCheckBody\<close>
  returns as available describes such a release.
\<close>

theorem buildUpdateCheckBody_anonymous_client:
  "isClientSelectedForRollout env r [] key = False
   \<and> (clientUniqueId req = [] \<and> \<not> betaRequested req
       \<and> walkReleases env req rels None None False False = Some (u, s, fm)
      \<longrightarrow> Some s \<in> set rels \<and> \<not> isUnfinishedRollout (CachedRelease.rollout s))
   \<and> (buildUpdateCheckBody env response [] False rl rph raw nav cmp fetcher = Inr (upd, w)
       \<and> isAvailable upd
      \<longrightarrow> (\<exists>s'. Some s' \<in> set (releases (body response))
              \<and> \<not> isUnfinishedRollout (CachedRelease.rollout s')
              \<and> PackageInfo.label upd = CachedRelease.label s'
              \<and> PackageInfo.packageHash upd = Some (CachedRelease.packageHash s')))"
proof -
  have walk: "Some s \<in> set rels \<and> \<not> isUnfinishedRollout (CachedRelease.rollout s)"
    if "clientUniqueId req = []" and "\<not> betaRequested req"
      and "walkReleases env req rels None None False False = Some (u, s, fm)"
    for req :: SelectionRequest and rels u s fm
    using walk_selected_sound [OF that(3)] that(1,2)
    by (simp add: rolloutAdmits_def no_client_no_cohort)
  have build: "\<exists>s'. Some s' \<in> set (releases (body response))
              \<and> \<not> isUnfinishedRollout (CachedRelease.rollout s')
              \<and> PackageInfo.label upd = CachedRelease.label s'
              \<and> PackageInfo.packageHash upd = Some (CachedRelease.packageHash s')"
    if b: "buildUpdateCheckBody env response [] False rl rph raw nav cmp fetcher = Inr (upd, w)"
      and a: "isAvailable upd"
  proof -
    let ?req = "\<lparr> clientUniqueId = [], betaRequested = False, requestLabel = rl,
        requestPackageHash = rph, normalizedAppVersion = nav, requestIsCompanion = cmp \<rparr>"
    obtain u' s' fm' where
      w: "walkReleases env ?req (releases (body response)) None None False False
            = Some (u', s', fm')"
      using build_no_update [OF _ b] a
      by (cases "walkReleases env ?req (releases (body response)) None None False False") auto
    obtain h wh where h: "hydrateDiffPayloadForRelease env u' (Some s') rph fetcher = Inr (h, wh)"
      and upd: "upd = finalizeUpdateCheckResponse h s' fm' raw nav"
      using b hydrate_resolves [of env u' s' rph fetcher]
      by (auto simp: build_selected [OF w])
    have "u' = createUpdateInfoFromRelease env s'"
      using walk_selected_sound [OF w] by simp
    then have "PackageInfo.label upd = CachedRelease.label s'"
      and "PackageInfo.packageHash upd = Some (CachedRelease.packageHash s')"
      using hydrate_keeps [OF h]
      by (simp_all add: upd finalize_fields createUpdateInfoFromRelease_def)
    moreover have "Some s' \<in> set (releases (body response))
        \<and> \<not> isUnfinishedRollout (CachedRelease.rollout s')"
      using walk [OF _ _ w] by simp
    ultimately show ?thesis by blast
  qed
  show ?thesis
    using no_client_no_cohort walk build by blast
qed

lemma anonymous_candidates:
  "candidate demoHost demoAnonymous relV1" "candidate demoHost demoAnonymous relV2"
  by (simp_all add: candidate_def demoAnonymous_def demoHost_def isClientPackage_def
      releaseApplies_def truthyBool_def relV1_fields relV2_fields)

lemma anonymous_rollout:
  "rolloutAdmits demoHost demoAnonymous relV1" "\<not> rolloutAdmits demoHost demoAnonymous relV2"
  by (simp_all add: rolloutAdmits_def isUnfinishedRollout_def relV1_fields relV2_fields
      demoAnonymous_def no_client_no_cohort)

lemma anonymous_walk:
  "walkReleases demoHost demoAnonymous (releases (body demoResponse)) None None False False
     = Some (createUpdateInfoFromRelease demoHost relV1, relV1, True)"
  by (simp add: demoResponse_def walk_skip walk_select anonymous_candidates anonymous_rollout
      demo_mandatory)

text \<open>
  An instance: without client id, \<open>v2\<close> at a rollout of 50 is passed over and \<open>v1\<close> is
  returned.
\<close>

theorem buildUpdateCheckBody_anonymous_client_witness:
  "isClientSelectedForRollout demoHost relV2 [] ''v2'' = False
   \<and> clientUniqueId demoAnonymous = [] \<and> \<not> betaRequested demoAnonymous
   \<and> walkReleases demoHost demoAnonymous (releases (body demoResponse)) None None False False
       = Some (createUpdateInfoFromRelease demoHost relV1, relV1, True)
   \<and> Some relV1 \<in> set (releases (body demoResponse))
   \<and> \<not> isUnfinishedRollout (CachedRelease.rollout relV1)
   \<and> isUnfinishedRollout (CachedRelease.rollout relV2)
   \<and> buildUpdateCheckBody demoHost demoResponse [] False [] ''H0'' ''1.0.0'' ''1.0.0'' False
         failingDiffMapFetcher
       = Inr (finalizeUpdateCheckResponse (createUpdateInfoFromRelease demoHost relV1) relV1
                True ''1.0.0'' ''1.0.0'',
              [ConsoleWarn ''Failed to hydrate diff package map for updateCheck''
                 (JsError ''connection lost'')])
   \<and> isAvailable (finalizeUpdateCheckResponse (createUpdateInfoFromRelease demoHost relV1)
         relV1 True ''1.0.0'' ''1.0.0'')
   \<and> (\<exists>s'. Some s' \<in> set (releases (body demoResponse))
          \<and> \<not> isUnfinishedRollout (CachedRelease.rollout s')
          \<and> PackageInfo.label (finalizeUpdateCheckResponse
                (createUpdateInfoFromRelease demoHost relV1) relV1 True ''1.0.0'' ''1.0.0'')
              = CachedRelease.label s'
          \<and> PackageInfo.packageHash (finalizeUpdateCheckResponse
                (createUpdateInfoFromRelease demoHost relV1) relV1 True ''1.0.0'' ''1.0.0'')
              = Some (CachedRelease.packageHash s'))"
proof -
  have c: "clientUniqueId demoAnonymous = []" and b: "\<not> betaRequested demoAnonymous"
    by (simp_all add: demoAnonymous_def)
  have w: "walkReleases demoHost
      \<lparr> clientUniqueId = [], betaRequested = False, requestLabel = [],
        requestPackageHash = ''H0'', normalizedAppVersion = ''1.0.0'',
        requestIsCompanion = False \<rparr>
      (releases (body demoResponse)) None None False False
      = Some (createUpdateInfoFromRelease demoHost relV1, relV1, True)"
    using anonymous_walk by (simp add: demoAnonymous_def)
  have r: "buildUpdateCheckBody demoHost demoResponse [] False [] ''H0'' ''1.0.0'' ''1.0.0''
      False failingDiffMapFetcher
      = Inr (finalizeUpdateCheckResponse (createUpdateInfoFromRelease demoHost relV1) relV1
               True ''1.0.0'' ''1.0.0'',
             [ConsoleWarn ''Failed to hydrate diff package map for updateCheck''
                (JsError ''connection lost'')])"
    by (simp add: build_selected [OF w] hydrate_failure [of _ _ _ "JsError ''connection lost''"]
        failingDiffMapFetcher_def demo_no_proxy)
  have a: "isAvailable (finalizeUpdateCheckResponse (createUpdateInfoFromRelease demoHost relV1)
      relV1 True ''1.0.0'' ''1.0.0'')"
    by (simp add: finalize_fields createUpdateInfoFromRelease_def truthyBool_def relV1_fields)
  have v2: "isUnfinishedRollout (CachedRelease.rollout relV2)"
    by (simp add: isUnfinishedRollout_def relV2_fields)
  show ?thesis
    using buildUpdateCheckBody_anonymous_client
      [of demoHost relV2 "''v2''" demoAnonymous "releases (body demoResponse)"
        "createUpdateInfoFromRelease demoHost relV1" relV1 True demoResponse "[]" "''H0''"
        "''1.0.0''" "''1.0.0''" False failingDiffMapFetcher
        "finalizeUpdateCheckResponse (createUpdateInfoFromRelease demoHost relV1) relV1
           True ''1.0.0'' ''1.0.0''"
        "[ConsoleWarn ''Failed to hydrate diff package map for updateCheck''
            (JsError ''connection lost'')]"]
      c b anonymous_walk r a v2
    by blast
qed

lemma walk_takes_head:
  assumes "candidate env req r" and "rolloutAdmits env req r"
  shows "\<exists>fm. walkReleases env req (Some r # rest) None None False False
           = Some (createUpdateInfoFromRelease env r, r, fm)"
  using walk_keeps_selected [of env req rest "createUpdateInfoFromRelease env r" r
      "False \<or> mandatory r" False] assms
  by (auto simp: walk_select)

lemma build_takes_head:
  assumes "releases (body response) = Some r # rest"
    and "candidate env \<lparr> clientUniqueId = cid, betaRequested = bt, requestLabel = rl,
           requestPackageHash = rph, normalizedAppVersion = nav,
           requestIsCompanion = cmp \<rparr> r"
    and "rolloutAdmits env \<lparr> clientUniqueId = cid, betaRequested = bt, requestLabel = rl,
           requestPackageHash = rph, normalizedAppVersion = nav,
           requestIsCompanion = cmp \<rparr> r"
  shows "\<exists>upd w. buildUpdateCheckBody env response cid bt rl rph raw nav cmp fetcher
                   = Inr (upd, w)
           \<and> isAvailable upd
           \<and> PackageInfo.label upd = CachedRelease.label r
           \<and> PackageInfo.packageHash upd = Some (CachedRelease.packageHash r)"
proof -
  obtain fm where w: "walkReleases env
      \<lparr> clientUniqueId = cid, betaRequested = bt, requestLabel = rl,
        requestPackageHash = rph, normalizedAppVersion = nav, requestIsCompanion = cmp \<rparr>
      (releases (body response)) None None False False
      = Some (createUpdateInfoFromRelease env r, r, fm)"
    using walk_takes_head [OF assms(2,3)] unfolding assms(1) by blast
  obtain h lg where h: "hydrateDiffPayloadForRelease env (createUpdateInfoFromRelease env r)
      (Some r) rph fetcher = Inr (h, lg)"
    using hydrate_resolves by blast
  have "isAvailable (createUpdateInfoFromRelease env r)"
    using assms(2) by (simp add: candidate_def createUpdateInfoFromRelease_def)
  moreover have "PackageInfo.label (createUpdateInfoFromRelease env r) = CachedRelease.label r"
    and "PackageInfo.packageHash (createUpdateInfoFromRelease env r)
         = Some (CachedRelease.packageHash r)"
    by (simp_all add: createUpdateInfoFromRelease_def)
  ultimately show ?thesis
    using hydrate_keeps [OF h]
    by (simp add: build_selected [OF w] h finalize_fields)
qed

text \<open>
  C2, as the claim states it, fails. For a history of \<open>v1\<close> (uploaded at 1000) and \<open>v2\<close>
  (uploaded at 2000), oldest first, the list of the response is \<open>v2\<close>, \<open>v1\<close>: the upload times
  decrease along it, and the newest release is first.
\<close>

theorem getUpdatePackageInfo_oldest_first_counterexample:
  "sorted_wrt (<) (map Package.uploadTime [pkgV1, pkgV2])
   \<and> releases (getUpdatePackageInfo demoHost [pkgV1, pkgV2] demoRequest)
       = [Some relV2, Some relV1]
   \<and> rolloutUploadTime relV2 = Some 2000 \<and> rolloutUploadTime relV1 = Some 1000
   \<and> \<not> sorted_wrt (\<lambda>a b. newerThan b a)
         (releases (getUpdatePackageInfo demoHost [pkgV1, pkgV2] demoRequest))"
proof -
  have "sorted_wrt (<) (map Package.uploadTime [pkgV1, pkgV2])"
    by (simp add: pkgV1_def pkgV2_def)
  moreover have "releases (getUpdatePackageInfo demoHost [pkgV1, pkgV2] demoRequest)
       = [Some relV2, Some relV1]"
    using releases_demo by (simp add: demoResponse_def)
  moreover have "\<not> newerThan (Some relV1) (Some relV2)"
    by (simp add: newerThan_def relV1_fields relV2_fields)
  ultimately show ?thesis
    by (simp add: relV1_fields relV2_fields)
qed

text \<open>
  C2, amended. The list of the response holds the kept packages of the history in reverse
  order: for a history ordered oldest first (upload times strictly increasing) it is
  strictly decreasing by upload time, newest release first. The engine walks it from the
  front: when the first entry is a candidate that the rollout admits, that entry is the
  update returned, whatever follows it.
\<close>

theorem getUpdatePackageInfo_newest_first_and_walked_from_front:
  "releases (getUpdatePackageInfo env history request)
     = map (\<lambda>pkg. Some (convertToCachedRelease pkg)) (filter (keptFor env request) (rev history))
   \<and> (sorted_wrt (<) (map Package.uploadTime history)
      \<longrightarrow> sorted_wrt newerThan (releases (getUpdatePackageInfo env history request)))
   \<and> (releases (body response) = Some r # rest
       \<and> candidate env \<lparr> clientUniqueId = cid, betaRequested = bt, requestLabel = rl,
           requestPackageHash = rph, normalizedAppVersion = nav,
           requestIsCompanion = cmp \<rparr> r
       \<and> rolloutAdmits env \<lparr> clientUniqueId = cid, betaRequested = bt, requestLabel = rl,
           requestPackageHash = rph, normalizedAppVersion = nav,
           requestIsCompanion = cmp \<rparr> r
      \<longrightarrow> (\<exists>upd w. buildUpdateCheckBody env response cid bt rl rph raw nav cmp fetcher
                       = Inr (upd, w)
              \<and> isAvailable upd
              \<and> PackageInfo.label upd = CachedRelease.label r
              \<and> PackageInfo.packageHash upd = Some (CachedRelease.packageHash r)))"
  using getUpdatePackageInfo_releases [of env history request]
    releases_newest_first [of history env request]
    build_takes_head [of response r rest env cid bt rl rph nav cmp raw fetcher]
  by blast

text \<open>
  An instance: the history of \<open>v1\<close> and \<open>v2\<close> gives the list \<open>v2\<close>, \<open>v1\<close>, and the list \<open>v1\<close>,
  \<open>v2\<close>, which starts with \<open>v1\<close>, gives the update \<open>v1\<close>.
\<close>

theorem getUpdatePackageInfo_newest_first_and_walked_from_front_witness:
  "releases (getUpdatePackageInfo demoHost [pkgV1, pkgV2] demoRequest)
     = [Some relV2, Some relV1]
   \<and> sorted_wrt (<) (map Package.uploadTime [pkgV1, pkgV2])
   \<and> sorted_wrt newerThan (releases (getUpdatePackageInfo demoHost [pkgV1, pkgV2] demoRequest))
   \<and> releases (body \<lparr> statusCode = 200, body = \<lparr> releases = [Some relV1, Some relV2] \<rparr> \<rparr>)
       = Some relV1 # [Some relV2]
   \<and> candidate demoHost demoSelection relV1 \<and> rolloutAdmits demoHost demoSelection relV1
   \<and> (\<exists>upd w. buildUpdateCheckBody demoHost
                   \<lparr> statusCode = 200, body = \<lparr> releases = [Some relV1, Some relV2] \<rparr> \<rparr>
                   ''device1'' False [] ''H0'' ''1.0.0'' ''1.0.0'' False demoDiffMapFetcher
                 = Inr (upd, w)
          \<and> isAvailable upd \<and> PackageInfo.label upd = Some ''v1''
          \<and> PackageInfo.packageHash upd = Some ''H1'')"
proof -
  have s: "sorted_wrt (<) (map Package.uploadTime [pkgV1, pkgV2])"
    by (simp add: pkgV1_def pkgV2_def)
  have l: "releases (getUpdatePackageInfo demoHost [pkgV1, pkgV2] demoRequest)
       = [Some relV2, Some relV1]"
    using releases_demo by (simp add: demoResponse_def)
  have c: "candidate demoHost \<lparr> clientUniqueId = ''device1'', betaRequested = False,
      requestLabel = [], requestPackageHash = ''H0'', normalizedAppVersion = ''1.0.0'',
      requestIsCompanion = False \<rparr> relV1"
    and a: "rolloutAdmits demoHost \<lparr> clientUniqueId = ''device1'', betaRequested = False,
      requestLabel = [], requestPackageHash = ''H0'', normalizedAppVersion = ''1.0.0'',
      requestIsCompanion = False \<rparr> relV1"
    using demo_candidates(1) demo_rollout(1) by (simp_all add: demoSelection_def)
  have b: "releases (body \<lparr> statusCode = 200, body = \<lparr> releases = [Some relV1, Some relV2] \<rparr> \<rparr>)
       = Some relV1 # [Some relV2]"
    by simp
  have "sorted_wrt newerThan (releases (getUpdatePackageInfo demoHost [pkgV1, pkgV2] demoRequest))"
    and "\<exists>upd w. buildUpdateCheckBody demoHost
                   \<lparr> statusCode = 200, body = \<lparr> releases = [Some relV1, Some relV2] \<rparr> \<rparr>
                   ''device1'' False [] ''H0'' ''1.0.0'' ''1.0.0'' False demoDiffMapFetcher
                 = Inr (upd, w)
          \<and> isAvailable upd \<and> PackageInfo.label upd = CachedRelease.label relV1
          \<and> PackageInfo.packageHash upd = Some (CachedRelease.packageHash relV1)"
    using getUpdatePackageInfo_newest_first_and_walked_from_front
      [of demoHost "[pkgV1, pkgV2]" demoRequest
        "\<lparr> statusCode = 200, body = \<lparr> releases = [Some relV1, Some relV2] \<rparr> \<rparr>" relV1 "[Some relV2]"
        "''device1''" False "[]" "''H0''" "''1.0.0''" False "''1.0.0''" demoDiffMapFetcher]
      s b c a
    by blast+
  then show ?thesis
    using s l b demo_candidates(1) demo_rollout(1) by (simp add: relV1_fields)
qed

section \<open>Cache errors and the deploy status report\<close>

lemma getCachedResponse_rejects:
  assumes "isEnabled m" and "hget (the (promisifiedOpsClient m)) key u s = (Inl err, s')"
  shows "\<exists>console. getCachedResponse m jsonParse key u s = ((Inl err, console), s')
           \<and> ConsoleError (getFailed key) err \<in> set console
           \<and> updateCheck_cachedResponse m jsonParse key u s = ((Inr None, Some err, console), s')"
  using assms
  by (simp add: getCachedResponse_def updateCheck_cachedResponse_def getFailed_def Let_def)

lemma setCachedResponse_exists_rejects:
  assumes "isEnabled m" and "exists' (the (promisifiedOpsClient m)) key s = (Inl err, s1)"
  shows "fst (fst (setCachedResponse m jsonStringify key u response s)) = Inl err"
  using assms by (simp add: setCachedResponse_def Let_def)

lemma setCachedResponse_hset_rejects:
  assumes "isEnabled m" and "exists' (the (promisifiedOpsClient m)) key s = (Inr n, s1)"
    and "hset (the (promisifiedOpsClient m)) key u (jsonStringify response) s1 = (Inl err, s2)"
  shows "fst (fst (setCachedResponse m jsonStringify key u response s)) = Inl err"
  using assms by (simp add: setCachedResponse_def Let_def)

lemma setCachedResponse_expire_rejects:
  assumes "isEnabled m" and "exists' (the (promisifiedOpsClient m)) key s = (Inr 0, s1)"
    and "hset (the (promisifiedOpsClient m)) key u (jsonStringify response) s1 = (Inr k, s2)"
    and "expire (the (promisifiedOpsClient m)) key DEFAULT_EXPIRY s2 = (Inl err, s3)"
  shows "fst (fst (setCachedResponse m jsonStringify key u response s)) = Inl err"
  using assms by (simp add: setCachedResponse_def Let_def)

lemma setCachedResponse_rejection_logged:
  assumes "setCachedResponse m jsonStringify key u response s = ((Inl err, console), s')"
  shows "ConsoleError (setFailed key) err \<in> set console
         \<and> updateCheck_writeBack m jsonStringify key u response s
             = ((Inr (), console @ [ConsoleWarn ''Failed to set updateCheck cache'' err]), s')"
proof -
  have "ConsoleError (setFailed key) err \<in> set console"
    using assms
    by (auto simp: setCachedResponse_def setFailed_def Let_def
        split: if_splits prod.splits sum.splits)
  then show ?thesis
    using assms by (simp add: updateCheck_writeBack_def)
qed

lemma handler_never_rejects:
  "(\<exists>c e console s'. updateCheck_cachedResponse m jsonParse key u s = ((Inr c, e, console), s'))
   \<and> (\<exists>console s'. updateCheck_writeBack m jsonStringify key u response s
                      = ((Inr (), console), s'))"
proof -
  obtain o1 c1 s1 where "getCachedResponse m jsonParse key u s = ((o1, c1), s1)"
    by (metis surj_pair)
  then have "\<exists>c e console s'. updateCheck_cachedResponse m jsonParse key u s
      = ((Inr c, e, console), s')"
    by (cases o1) (simp_all add: updateCheck_cachedResponse_def)
  moreover obtain o2 c2 s2 where
    "setCachedResponse m jsonStringify key u response s = ((o2, c2), s2)"
    by (metis surj_pair)
  then have "\<exists>console s'. updateCheck_writeBack m jsonStringify key u response s
      = ((Inr (), console), s')"
    by (cases o2) (simp_all add: updateCheck_writeBack_def)
  ultimately show ?thesis by blast
qed

lemma updateCheck_cachedResponse_cases:
  obtains c e console s' where
    "updateCheck_cachedResponse m jsonParse key u s = ((Inr c, e, console), s')"
  using handler_never_rejects [where m = m and jsonParse = jsonParse and key = key and u = u and s = s]
  by blast

lemma updateCheck_writeBack_cases:
  obtains console s' where
    "updateCheck_writeBack m jsonStringify key u response s = ((Inr (), console), s')"
  using handler_never_rejects
      [where m = m and jsonStringify = jsonStringify and key = key and u = u and s = s
        and response = response]
  by blast

lemma chain_read_error:
  assumes "isEnabled m" and "hget (the (promisifiedOpsClient m)) key u s = (Inl err, s1)"
    and "create s1 = ((Inr (Some response), c2), s2)"
    and "send response False s2 = ((Inr (), c3), s3)"
  shows "runAnswered (updateCheck_chain m jsonParse jsonStringify create send key u s)
           = Some (response, False)
         \<and> runRestError (updateCheck_chain m jsonParse jsonStringify create send key u s) = None
         \<and> ConsoleWarn ''Redis cache error in updateCheck'' err
             \<in> set (runConsole (updateCheck_chain m jsonParse jsonStringify create send key u s))"
proof -
  obtain c1 where r: "updateCheck_cachedResponse m jsonParse key u s
      = ((Inr None, Some err, c1), s1)"
    using getCachedResponse_rejects [OF assms(1,2)] by blast
  obtain c4 s4 where w: "updateCheck_writeBack m jsonStringify key u response s3
      = ((Inr (), c4), s4)"
    by (rule updateCheck_writeBack_cases)
  show ?thesis
    by (simp add: updateCheck_chain_def r assms(3,4) w updateCheck_settle_def
        updateCheck_epilogue_def)
qed

lemma chain_write_error:
  assumes "isEnabled m" and "hget (the (promisifiedOpsClient m)) key u s = (Inr None, s1)"
    and "create s1 = ((Inr (Some response), c2), s2)"
    and "send response False s2 = ((Inr (), c3), s3)"
    and "setCachedResponse m jsonStringify key u response s3 = ((Inl err, c4), s4)"
  shows "runAnswered (updateCheck_chain m jsonParse jsonStringify create send key u s)
           = Some (response, False)
         \<and> runRestError (updateCheck_chain m jsonParse jsonStringify create send key u s) = None
         \<and> ConsoleWarn ''Failed to set updateCheck cache'' err
             \<in> set (runConsole (updateCheck_chain m jsonParse jsonStringify create send key u s))"
proof -
  have "\<exists>c1. updateCheck_cachedResponse m jsonParse key u s = ((Inr None, None, c1), s1)"
    using assms(1,2)
    by (simp add: updateCheck_cachedResponse_def getCachedResponse_def truthyStr_def Let_def)
  then obtain c1 where r: "updateCheck_cachedResponse m jsonParse key u s
      = ((Inr None, None, c1), s1)" by blast
  have w: "updateCheck_writeBack m jsonStringify key u response s3
      = ((Inr (), c4 @ [ConsoleWarn ''Failed to set updateCheck cache'' err]), s4)"
    using setCachedResponse_rejection_logged [OF assms(5)] by simp
  show ?thesis
    by (simp add: updateCheck_chain_def r assms(3,4) w updateCheck_settle_def
        updateCheck_epilogue_def)
qed

lemma chain_rest_error:
  assumes "runRestError (updateCheck_chain m jsonParse jsonStringify create send key u s)
           = Some e"
  shows "(\<exists>st c st'. create st = ((Inl e, c), st'))
         \<or> (\<exists>response fromCache st c st'. send response fromCache st = ((Inl e, c), st'))"
proof -
  obtain cr re c1 s1 where r: "updateCheck_cachedResponse m jsonParse key u s
      = ((Inr cr, re, c1), s1)"
    by (rule updateCheck_cachedResponse_cases)
  obtain found c2 s2 where f: "create s1 = ((found, c2), s2)" by (metis surj_pair)
  show ?thesis
  proof (cases cr)
    case (Some response)
    obtain sent c3 s3 where sd: "send response True s1 = ((sent, c3), s3)" by (metis surj_pair)
    show ?thesis
      using assms sd
      by (cases sent)
        (auto simp: updateCheck_chain_def r Some updateCheck_settle_def updateCheck_epilogue_def)
  next
    case None
    show ?thesis
    proof (cases found)
      case (Inl err)
      then show ?thesis
        using assms f
        by (auto simp: updateCheck_chain_def r None updateCheck_settle_def
            updateCheck_epilogue_def)
    next
      case (Inr resp)
      show ?thesis
      proof (cases resp)
        case None': None
        then show ?thesis
          using assms f Inr
          by (simp add: updateCheck_chain_def r None updateCheck_settle_def
              updateCheck_epilogue_def)
      next
        case (Some response)
        obtain sent c3 s3 where sd: "send response False s2 = ((sent, c3), s3)"
          by (metis surj_pair)
        obtain c4 s4 where w: "updateCheck_writeBack m jsonStringify key u response s3
            = ((Inr (), c4), s4)"
          by (rule updateCheck_writeBack_cases)
        show ?thesis
          using assms f Inr Some sd w
          by (cases sent)
            (auto simp: updateCheck_chain_def r None updateCheck_settle_def
              updateCheck_epilogue_def)
      qed
    qed
  qed
qed

text \<open>
  C3, as the claim states it, fails. With a store whose first command fails,
  \<open>getCachedResponse\<close> does not resolve to \<open>null\<close>: its promise is rejected with the error of
  \<open>hget\<close>. \<open>setCachedResponse\<close> is rejected with the error of \<open>exists\<close>.
\<close>

theorem getCachedResponse_null_on_error_counterexample:
  "isEnabled flakyManager
   \<and> hget flakyClient ''deploymentKey:K'' ''/updateCheck?deploymentKey=K'' 0
       = (Inl (JsError ''ECONNRESET''), 0)
   \<and> fst (fst (getCachedResponse flakyManager demoJsonParse ''deploymentKey:K''
                  ''/updateCheck?deploymentKey=K'' 0)) = Inl (JsError ''ECONNRESET'')
   \<and> fst (fst (getCachedResponse flakyManager demoJsonParse ''deploymentKey:K''
                  ''/updateCheck?deploymentKey=K'' 0)) \<noteq> Inr None
   \<and> exists' flakyClient ''deploymentKey:K'' 0 = (Inl (JsError ''ECONNRESET''), 0)
   \<and> fst (fst (setCachedResponse flakyManager demoJsonStringify ''deploymentKey:K''
                  ''/updateCheck?deploymentKey=K'' demoResponse 0))
       = Inl (JsError ''ECONNRESET'')"
  by (simp add: isEnabled_def flakyManager_def flakyClient_def getCachedResponse_def
      setCachedResponse_def)

text \<open>
  C3, amended. For an enabled manager: an I/O error of the read (\<open>hget\<close>) is written to the
  console by \<open>getCachedResponse\<close> and rejects its promise, and the update-check handler
  takes the rejection as a miss (it goes on with \<open>null\<close> and keeps the error in
  \<open>redisError\<close>). An I/O error of the write, in \<open>exists\<close>, \<open>hset\<close> or \<open>expire\<close>, is written to
  the console by \<open>setCachedResponse\<close> and rejects its promise, and the write-back of the
  handler warns and resolves. So the cache error reaches the caller of the manager. In the
  chain of the handler, for every \<open>createResponseUsingStorage\<close> and \<open>sendUpdateCheckResponse\<close>:
  when the read fails, or the read misses and the write-back fails, and the two resolve, the
  response of the storage is sent with \<open>fromCache = false\<close>, no error is given to
  \<open>restErrorHandler\<close>, and the cache error is a warning on the console; and an error that is
  given to \<open>restErrorHandler\<close> is always a rejection of \<open>createResponseUsingStorage\<close> or of
  \<open>sendUpdateCheckResponse\<close>.
\<close>

theorem cache_errors_rethrown_by_manager_absorbed_by_handler:
  assumes "isEnabled m" and "cl = the (promisifiedOpsClient m)"
  shows "(hget cl key u s = (Inl err, s')
          \<longrightarrow> (\<exists>console. getCachedResponse m jsonParse key u s = ((Inl err, console), s')
                 \<and> ConsoleError (getFailed key) err \<in> set console
                 \<and> updateCheck_cachedResponse m jsonParse key u s
                     = ((Inr None, Some err, console), s')))
         \<and> (exists' cl key sa = (Inl err, sa1)
          \<longrightarrow> fst (fst (setCachedResponse m jsonStringify key u response sa)) = Inl err)
         \<and> (exists' cl key sb = (Inr n, sb1)
             \<and> hset cl key u (jsonStringify response) sb1 = (Inl err, sb2)
          \<longrightarrow> fst (fst (setCachedResponse m jsonStringify key u response sb)) = Inl err)
         \<and> (exists' cl key sc = (Inr 0, sc1)
             \<and> hset cl key u (jsonStringify response) sc1 = (Inr k, sc2)
             \<and> expire cl key DEFAULT_EXPIRY sc2 = (Inl err, sc3)
          \<longrightarrow> fst (fst (setCachedResponse m jsonStringify key u response sc)) = Inl err)
         \<and> (setCachedResponse m jsonStringify key u response sw = ((Inl err, wconsole), sw')
          \<longrightarrow> ConsoleError (setFailed key) err \<in> set wconsole
              \<and> updateCheck_writeBack m jsonStringify key u response sw
                  = ((Inr (), wconsole @ [ConsoleWarn ''Failed to set updateCheck cache'' err]),
                     sw'))
         \<and> (hget cl key u rs = (Inl err, rsA)
             \<and> create rsA = ((Inr (Some response), rcB), rsB)
             \<and> send response False rsB = ((Inr (), rcC), rsC)
          \<longrightarrow> runAnswered (updateCheck_chain m jsonParse jsonStringify create send key u rs)
                = Some (response, False)
              \<and> runRestError (updateCheck_chain m jsonParse jsonStringify create send key u rs)
                  = None
              \<and> ConsoleWarn ''Redis cache error in updateCheck'' err
                  \<in> set (runConsole
                           (updateCheck_chain m jsonParse jsonStringify create send key u rs)))
         \<and> (hget cl key u ws = (Inr None, wsA)
             \<and> create wsA = ((Inr (Some response), wcB), wsB)
             \<and> send response False wsB = ((Inr (), wcC), wsC)
             \<and> setCachedResponse m jsonStringify key u response wsC = ((Inl err, wcD), wsD)
          \<longrightarrow> runAnswered (updateCheck_chain m jsonParse jsonStringify create send key u ws)
                = Some (response, False)
              \<and> runRestError (updateCheck_chain m jsonParse jsonStringify create send key u ws)
                  = None
              \<and> ConsoleWarn ''Failed to set updateCheck cache'' err
                  \<in> set (runConsole
                           (updateCheck_chain m jsonParse jsonStringify create send key u ws)))
         \<and> (runRestError (updateCheck_chain m jsonParse jsonStringify createF sendF key u fs)
               = Some rejected
          \<longrightarrow> (\<exists>st c st'. createF st = ((Inl rejected, c), st'))
              \<or> (\<exists>resp fromCache st c st'. sendF resp fromCache st = ((Inl rejected, c), st')))"
proof -
  note e = assms(1)
  have 1: "hget cl key u s = (Inl err, s')
      \<longrightarrow> (\<exists>console. getCachedResponse m jsonParse key u s = ((Inl err, console), s')
             \<and> ConsoleError (getFailed key) err \<in> set console
             \<and> updateCheck_cachedResponse m jsonParse key u s
                 = ((Inr None, Some err, console), s'))"
    using getCachedResponse_rejects [OF e, of key u s err s' jsonParse]
    unfolding assms(2) by blast
  have 2: "exists' cl key sa = (Inl err, sa1)
      \<longrightarrow> fst (fst (setCachedResponse m jsonStringify key u response sa)) = Inl err"
    using setCachedResponse_exists_rejects [OF e, of key sa err sa1 jsonStringify u response]
    unfolding assms(2) by blast
  have 3: "exists' cl key sb = (Inr n, sb1)
        \<and> hset cl key u (jsonStringify response) sb1 = (Inl err, sb2)
      \<longrightarrow> fst (fst (setCachedResponse m jsonStringify key u response sb)) = Inl err"
    using setCachedResponse_hset_rejects
      [OF e, of key sb n sb1 u jsonStringify response err sb2]
    unfolding assms(2) by blast
  have 4: "exists' cl key sc = (Inr 0, sc1)
        \<and> hset cl key u (jsonStringify response) sc1 = (Inr k, sc2)
        \<and> expire cl key DEFAULT_EXPIRY sc2 = (Inl err, sc3)
      \<longrightarrow> fst (fst (setCachedResponse m jsonStringify key u response sc)) = Inl err"
    using setCachedResponse_expire_rejects
      [OF e, of key sc sc1 u jsonStringify response k sc2 err sc3]
    unfolding assms(2) by blast
  have 5: "setCachedResponse m jsonStringify key u response sw = ((Inl err, wconsole), sw')
      \<longrightarrow> ConsoleError (setFailed key) err \<in> set wconsole
          \<and> updateCheck_writeBack m jsonStringify key u response sw
              = ((Inr (), wconsole @ [ConsoleWarn ''Failed to set updateCheck cache'' err]),
                 sw')"
    using setCachedResponse_rejection_logged [of m jsonStringify key u response sw err wconsole sw']
    by blast
  have 6: "hget cl key u rs = (Inl err, rsA)
        \<and> create rsA = ((Inr (Some response), rcB), rsB)
        \<and> send response False rsB = ((Inr (), rcC), rsC)
      \<longrightarrow> runAnswered (updateCheck_chain m jsonParse jsonStringify create send key u rs)
            = Some (response, False)
          \<and> runRestError (updateCheck_chain m jsonParse jsonStringify create send key u rs)
              = None
          \<and> ConsoleWarn ''Redis cache error in updateCheck'' err
              \<in> set (runConsole
                       (updateCheck_chain m jsonParse jsonStringify create send key u rs))"
    using chain_read_error [OF e, of key u rs err rsA create response rcB rsB send rcC rsC]
    unfolding assms(2) by blast
  have 7: "hget cl key u ws = (Inr None, wsA)
        \<and> create wsA = ((Inr (Some response), wcB), wsB)
        \<and> send response False wsB = ((Inr (), wcC), wsC)
        \<and> setCachedResponse m jsonStringify key u response wsC = ((Inl err, wcD), wsD)
      \<longrightarrow> runAnswered (updateCheck_chain m jsonParse jsonStringify create send key u ws)
            = Some (response, False)
          \<and> runRestError (updateCheck_chain m jsonParse jsonStringify create send key u ws)
              = None
          \<and> ConsoleWarn ''Failed to set updateCheck cache'' err
              \<in> set (runConsole
                       (updateCheck_chain m jsonParse jsonStringify create send key u ws))"
    using chain_write_error
      [OF e, of key u ws wsA create response wcB wsB send wcC wsC jsonStringify err wcD wsD]
    unfolding assms(2) by blast
  have 8: "runRestError (updateCheck_chain m jsonParse jsonStringify createF sendF key u fs)
        = Some rejected
      \<longrightarrow> (\<exists>st c st'. createF st = ((Inl rejected, c), st'))
          \<or> (\<exists>resp fromCache st c st'. sendF resp fromCache st = ((Inl rejected, c), st'))"
    using chain_rest_error [of m jsonParse jsonStringify createF sendF key u fs rejected]
    by blast
  show ?thesis using 1 2 3 4 5 6 7 8 by (intro conjI)
qed

text \<open>
  An instance: a store that fails at the first, the second or the third command. When the
  read fails at once, and when the read misses and the write-back then fails, the chain
  sends the response of the storage and gives no error to \<open>restErrorHandler\<close>; with a
  storage that fails, the error given to \<open>restErrorHandler\<close> is that of the storage.
\<close>

theorem cache_errors_rethrown_by_manager_absorbed_by_handler_witness:
  "isEnabled flakyManager \<and> flakyClient = the (promisifiedOpsClient flakyManager)
   \<and> hget flakyClient ''deploymentKey:K'' ''/updateCheck'' 0 = (Inl (JsError ''ECONNRESET''), 0)
   \<and> (\<exists>console. getCachedResponse flakyManager demoJsonParse ''deploymentKey:K''
                    ''/updateCheck'' 0 = ((Inl (JsError ''ECONNRESET''), console), 0)
          \<and> ConsoleError (getFailed ''deploymentKey:K'') (JsError ''ECONNRESET'') \<in> set console
          \<and> updateCheck_cachedResponse flakyManager demoJsonParse ''deploymentKey:K''
               ''/updateCheck'' 0
              = ((Inr None, Some (JsError ''ECONNRESET''), console), 0))
   \<and> exists' flakyClient ''deploymentKey:K'' 0 = (Inl (JsError ''ECONNRESET''), 0)
   \<and> fst (fst (setCachedResponse flakyManager demoJsonStringify ''deploymentKey:K''
                  ''/updateCheck'' demoResponse 0)) = Inl (JsError ''ECONNRESET'')
   \<and> exists' flakyClient ''deploymentKey:K'' 1 = (Inr 0, 0)
   \<and> hset flakyClient ''deploymentKey:K'' ''/updateCheck'' (demoJsonStringify demoResponse) 0
       = (Inl (JsError ''ECONNRESET''), 0)
   \<and> fst (fst (setCachedResponse flakyManager demoJsonStringify ''deploymentKey:K''
                  ''/updateCheck'' demoResponse 1)) = Inl (JsError ''ECONNRESET'')
   \<and> exists' flakyClient ''deploymentKey:K'' 2 = (Inr 0, 1)
   \<and> hset flakyClient ''deploymentKey:K'' ''/updateCheck'' (demoJsonStringify demoResponse) 1
       = (Inr 1, 0)
   \<and> expire flakyClient ''deploymentKey:K'' DEFAULT_EXPIRY 0 = (Inl (JsError ''ECONNRESET''), 0)
   \<and> fst (fst (setCachedResponse flakyManager demoJsonStringify ''deploymentKey:K''
                  ''/updateCheck'' demoResponse 2)) = Inl (JsError ''ECONNRESET'')
   \<and> setCachedResponse flakyManager demoJsonStringify ''deploymentKey:K'' ''/updateCheck''
         demoResponse 0
       = ((Inl (JsError ''ECONNRESET''),
           [ConsoleLog ''[Redis] Setting cached response - Key: deploymentKey:K, URL: /updateCheck'',
            ConsoleError (setFailed ''deploymentKey:K'') (JsError ''ECONNRESET'')]), 0)
   \<and> updateCheck_writeBack flakyManager demoJsonStringify ''deploymentKey:K'' ''/updateCheck''
         demoResponse 0
       = ((Inr (),
           [ConsoleLog ''[Redis] Setting cached response - Key: deploymentKey:K, URL: /updateCheck'',
            ConsoleError (setFailed ''deploymentKey:K'') (JsError ''ECONNRESET''),
            ConsoleWarn ''Failed to set updateCheck cache'' (JsError ''ECONNRESET'')]), 0)
   \<and> demoCreateResponse 0 = ((Inr (Some demoResponse), []), 0)
   \<and> demoSendResponse demoResponse False 0 = ((Inr (), []), 0)
   \<and> runAnswered (updateCheck_chain flakyManager demoJsonParse demoJsonStringify
                     demoCreateResponse demoSendResponse ''deploymentKey:K'' ''/updateCheck'' 0)
       = Some (demoResponse, False)
   \<and> runRestError (updateCheck_chain flakyManager demoJsonParse demoJsonStringify
                      demoCreateResponse demoSendResponse ''deploymentKey:K'' ''/updateCheck'' 0)
       = None
   \<and> ConsoleWarn ''Redis cache error in updateCheck'' (JsError ''ECONNRESET'')
       \<in> set (runConsole (updateCheck_chain flakyManager demoJsonParse demoJsonStringify
                  demoCreateResponse demoSendResponse ''deploymentKey:K'' ''/updateCheck'' 0))
   \<and> hget flakyClient ''deploymentKey:K'' ''/updateCheck'' 1 = (Inr None, 0)
   \<and> runAnswered (updateCheck_chain flakyManager demoJsonParse demoJsonStringify
                     demoCreateResponse demoSendResponse ''deploymentKey:K'' ''/updateCheck'' 1)
       = Some (demoResponse, False)
   \<and> runRestError (updateCheck_chain flakyManager demoJsonParse demoJsonStringify
                      demoCreateResponse demoSendResponse ''deploymentKey:K'' ''/updateCheck'' 1)
       = None
   \<and> ConsoleWarn ''Failed to set updateCheck cache'' (JsError ''ECONNRESET'')
       \<in> set (runConsole (updateCheck_chain flakyManager demoJsonParse demoJsonStringify
                  demoCreateResponse demoSendResponse ''deploymentKey:K'' ''/updateCheck'' 1))
   \<and> runRestError (updateCheck_chain flakyManager demoJsonParse demoJsonStringify
                      failingCreateResponse demoSendResponse ''deploymentKey:K''
                      ''/updateCheck'' 0)
       = Some (JsError ''storage unavailable'')
   \<and> ((\<exists>st c st'. failingCreateResponse st = ((Inl (JsError ''storage unavailable''), c), st'))
        \<or> (\<exists>resp fromCache st c st'.
              demoSendResponse resp fromCache st
                = ((Inl (JsError ''storage unavailable''), c), st')))"
proof -
  have e: "isEnabled flakyManager" and c: "flakyClient = the (promisifiedOpsClient flakyManager)"
    by (simp_all add: isEnabled_def flakyManager_def)
  have g: "hget flakyClient ''deploymentKey:K'' ''/updateCheck'' 0
      = (Inl (JsError ''ECONNRESET''), 0)"
    and g1: "hget flakyClient ''deploymentKey:K'' ''/updateCheck'' 1 = (Inr None, 0)"
    and x0: "exists' flakyClient ''deploymentKey:K'' 0 = (Inl (JsError ''ECONNRESET''), 0)"
    and x1: "exists' flakyClient ''deploymentKey:K'' 1 = (Inr 0, 0)"
    and h0: "hset flakyClient ''deploymentKey:K'' ''/updateCheck''
      (demoJsonStringify demoResponse) 0 = (Inl (JsError ''ECONNRESET''), 0)"
    and x2: "exists' flakyClient ''deploymentKey:K'' 2 = (Inr 0, 1)"
    and h1: "hset flakyClient ''deploymentKey:K'' ''/updateCheck''
      (demoJsonStringify demoResponse) 1 = (Inr 1, 0)"
    and p0: "expire flakyClient ''deploymentKey:K'' DEFAULT_EXPIRY 0
      = (Inl (JsError ''ECONNRESET''), 0)"
    by (simp_all add: flakyClient_def)
  have w: "setCachedResponse flakyManager demoJsonStringify ''deploymentKey:K'' ''/updateCheck''
         demoResponse 0
       = ((Inl (JsError ''ECONNRESET''),
           [ConsoleLog ''[Redis] Setting cached response - Key: deploymentKey:K, URL: /updateCheck'',
            ConsoleError (setFailed ''deploymentKey:K'') (JsError ''ECONNRESET'')]), 0)"
    using e c [symmetric] x0 by (simp add: setCachedResponse_def setFailed_def)
  have dc: "demoCreateResponse 0 = ((Inr (Some demoResponse), []), 0)"
    and ds: "demoSendResponse demoResponse False 0 = ((Inr (), []), 0)"
    by (simp_all add: demoCreateResponse_def demoSendResponse_def)
  have r: "updateCheck_cachedResponse flakyManager demoJsonParse ''deploymentKey:K''
      ''/updateCheck'' 0
      = ((Inr None, Some (JsError ''ECONNRESET''),
          [ConsoleLog ''[Redis] Attempting to get cached response - Key: deploymentKey:K, URL: /updateCheck'',
           ConsoleError ''[Redis] Error getting cached response for key deploymentKey:K:''
             (JsError ''ECONNRESET'')]), 0)"
    using e c [symmetric] g
    by (simp add: updateCheck_cachedResponse_def getCachedResponse_def)
  have fr: "runRestError (updateCheck_chain flakyManager demoJsonParse demoJsonStringify
      failingCreateResponse demoSendResponse ''deploymentKey:K'' ''/updateCheck'' 0)
      = Some (JsError ''storage unavailable'')"
    by (simp add: updateCheck_chain_def r failingCreateResponse_def updateCheck_settle_def
        updateCheck_epilogue_def)
  note t = cache_errors_rethrown_by_manager_absorbed_by_handler [OF e c,
        of "''deploymentKey:K''" "''/updateCheck''" 0 "JsError ''ECONNRESET''" 0 demoJsonParse
          0 0 demoJsonStringify demoResponse 1 0 0 0 2 1 1 0 0 0
          "[ConsoleLog ''[Redis] Setting cached response - Key: deploymentKey:K, URL: /updateCheck'',
            ConsoleError (setFailed ''deploymentKey:K'') (JsError ''ECONNRESET'')]" 0,
        where rs = 0 and rsA = 0 and create = demoCreateResponse and rcB = "[]" and rsB = 0
          and send = demoSendResponse and rcC = "[]" and rsC = 0
          and ws = 1 and wsA = 0 and wcB = "[]" and wsB = 0 and wcC = "[]" and wsC = 0
          and wcD = "[ConsoleLog ''[Redis] Setting cached response - Key: deploymentKey:K, URL: /updateCheck'',
            ConsoleError (setFailed ''deploymentKey:K'') (JsError ''ECONNRESET'')]"
          and wsD = 0
          and createF = failingCreateResponse and sendF = demoSendResponse and fs = 0
          and rejected = "JsError ''storage unavailable''"]
  show ?thesis
    using t e c g g1 x0 x1 h0 x2 h1 p0 w dc ds fr
    by simp
qed

text \<open>
  C5, as the claim states it, fails. A report with a label and the status \<open>Downloaded\<close>,
  which is neither \<open>DeploymentSucceeded\<close> nor \<open>DeploymentFailed\<close>, passes
  \<open>isValidDeploymentStatus\<close>: for a new SDK the handler answers 200 and records an update.
\<close>

theorem reportStatusDeploy_downloaded_counterexample:
  "truthyStr (downloadedReport ''label'')
   \<and> downloadedReport ''status'' \<noteq> Some ''DeploymentSucceeded''
   \<and> downloadedReport ''status'' \<noteq> Some ''DeploymentFailed''
   \<and> reportStatusDeploy True metricsOk downloadedReport
       = (SendStatus 200, [RecordUpdate ''K'' ''v2'' ''K'' None], [])"
  by (simp add: reportStatusDeploy_def downloadedReport_def metricsOk_def truthyStr_def
      orStr_def isValidDeploymentStatus_def DEPLOYMENT_SUCCEEDED_def DEPLOYMENT_FAILED_def
      DOWNLOADED_def)

text \<open>
  C5, amended. For a report whose body has a (non-empty) label, the handler answers 400
  MalformedRequest, without any call of the metrics store, unless the status is exactly
  \<open>DeploymentSucceeded\<close>, \<open>DeploymentFailed\<close> or \<open>Downloaded\<close>, the three values that
  \<open>isValidDeploymentStatus\<close> accepts.
\<close>

theorem reportStatusDeploy_rejects_unknown_status:
  assumes "truthyStr (reqBody ''label'')"
    and "reqBody ''status'' \<noteq> Some ''DeploymentSucceeded''"
    and "reqBody ''status'' \<noteq> Some ''DeploymentFailed''"
    and "reqBody ''status'' \<noteq> Some ''Downloaded''"
  shows "\<exists>message. reportStatusDeploy newMetricsSdk metrics reqBody
           = (MalformedRequestError message, [], [])"
proof (cases "truthyStr (reqBody ''status'')")
  case True
  then obtain st where st: "reqBody ''status'' = Some st"
    by (auto simp: truthyStr_def split: option.splits)
  then have "\<not> isValidDeploymentStatus (the (reqBody ''status''))"
    using assms(2-4)
    by (simp add: isValidDeploymentStatus_def DEPLOYMENT_SUCCEEDED_def DEPLOYMENT_FAILED_def
        DOWNLOADED_def)
  then show ?thesis
    using assms(1) True by (simp add: reportStatusDeploy_def Let_def)
next
  case False
  then show ?thesis
    using assms(1) by (simp add: reportStatusDeploy_def Let_def)
qed

text \<open>
  An instance: a report for \<open>v2\<close> with the status \<open>Installed\<close> is answered with 400.
\<close>

theorem reportStatusDeploy_rejects_unknown_status_witness:
  "truthyStr (installedReport ''label'')
   \<and> installedReport ''status'' \<noteq> Some ''DeploymentSucceeded''
   \<and> installedReport ''status'' \<noteq> Some ''DeploymentFailed''
   \<and> installedReport ''status'' \<noteq> Some ''Downloaded''
   \<and> reportStatusDeploy True metricsOk installedReport
       = (MalformedRequestError ''Invalid status: Installed'', [], [])"
proof -
  have l: "truthyStr (installedReport ''label'')"
    and s: "installedReport ''status'' \<noteq> Some ''DeploymentSucceeded''"
      "installedReport ''status'' \<noteq> Some ''DeploymentFailed''"
      "installedReport ''status'' \<noteq> Some ''Downloaded''"
    by (simp_all add: installedReport_def truthyStr_def)
  have "isValidDeploymentStatus ''Installed'' = False"
    by (simp add: isValidDeploymentStatus_def DEPLOYMENT_SUCCEEDED_def DEPLOYMENT_FAILED_def
        DOWNLOADED_def)
  then have "reportStatusDeploy True metricsOk installedReport
      = (MalformedRequestError ''Invalid status: Installed'', [], [])"
    by (simp add: reportStatusDeploy_def installedReport_def truthyStr_def orStr_def)
  then show ?thesis
    using reportStatusDeploy_rejects_unknown_status [OF l s, of True metricsOk] l s
    by simp
qed

end
